theory Spec2Isabelle
  imports Main "HOL-Library.Word"
begin

unbundle bit_operations_syntax

section \<open>The tab control helper of TabCtrl.c\<close>

text \<open>
  A shallow embedding of \<^verbatim>\<open>src/GUI/TabCtrl.c\<close>. The C functions become HOL functions
  over an explicit \<open>world\<close>: the state of the window system as far as the file reads
  or writes it, the global \<^verbatim>\<open>m_lptc\<close>, and the memory that holds the
  \<^verbatim>\<open>TABCTRL\<close> structures. A function that may wait for ever (the nested message
  pump) returns an \<open>option\<close>, \<open>None\<close> meaning that it does not return; undefined
  behaviour of the C code (a dangling \<^verbatim>\<open>m_lptc\<close>, an index outside
  \<^verbatim>\<open>hTabPages\<close>) is the value \<open>Inl\<close> of a fault.

  Integers of the C code (\<^verbatim>\<open>int\<close>, \<^verbatim>\<open>LONG\<close>) are modelled as \<open>int\<close>:
  the file only adds and subtracts window coordinates and tab indices, and signed overflow
  is undefined in C. Message numbers, key codes and style bits are 32-bit and 16-bit words.
\<close>

subsection \<open>Basic types and the constants of the Windows headers\<close>

type_synonym HWND = nat
type_synonym LPTABCTRL = nat
type_synonym UINT = "32 word"
type_synonym WORD = "16 word"
type_synonym LPSTR = "string option"

abbreviation NULL :: nat where "NULL \<equiv> 0"

named_theorems winconst \<open>values of the constants taken from the Windows SDK headers\<close>

text \<open>
  The constants below are not defined in TabCtrl.c; it takes them from
  \<^verbatim>\<open>windows.h\<close> and \<^verbatim>\<open>commctrl.h\<close>. The values are those of the SDK headers.
\<close>

definition WM_SHOWWINDOW :: UINT where [winconst]: "WM_SHOWWINDOW = 0x18"
definition WM_KEYDOWN :: UINT where [winconst]: "WM_KEYDOWN = 0x100"
definition VK_TAB :: UINT where [winconst]: "VK_TAB = 0x09"
definition VK_PRIOR :: WORD where [winconst]: "VK_PRIOR = 0x21"
definition VK_NEXT :: WORD where [winconst]: "VK_NEXT = 0x22"
definition VK_LEFT :: WORD where [winconst]: "VK_LEFT = 0x25"
definition VK_UP :: WORD where [winconst]: "VK_UP = 0x26"
definition VK_RIGHT :: WORD where [winconst]: "VK_RIGHT = 0x27"
definition VK_DOWN :: WORD where [winconst]: "VK_DOWN = 0x28"
definition TCS_BOTTOM :: UINT where [winconst]: "TCS_BOTTOM = 0x0002"
definition TCS_VERTICAL :: UINT where [winconst]: "TCS_VERTICAL = 0x0080"
definition TCN_KEYDOWN :: UINT where [winconst]: "TCN_KEYDOWN = 0 - 550"
definition TCN_SELCHANGE :: UINT where [winconst]: "TCN_SELCHANGE = 0 - 551"
definition SW_HIDE :: int where [winconst]: "SW_HIDE = 0"
definition SW_SHOW :: int where [winconst]: "SW_SHOW = 5"
definition FALSE :: int where [winconst]: "FALSE = 0"
definition TRUE :: int where [winconst]: "TRUE = 1"

record RECT =
  rc_left :: int
  rc_top :: int
  rc_right :: int
  rc_bottom :: int

record MSG =
  hwnd :: HWND
  message :: UINT
  wParam :: UINT
  lParam :: UINT

record NMHDR =
  hwndFrom :: HWND
  idFrom :: nat
  code :: UINT

record TC_KEYDOWN =
  hdr :: NMHDR
  wVKey :: WORD
  flags :: UINT

subsection \<open>The TABCTRL structure\<close>

text \<open>
  Modelled from the spec: the structure \<^verbatim>\<open>TABCTRL\<close> is declared in TabCtrl.h, which
  is not among the sources. Its fields are those of the spec's TabControlState (tab-strip
  handle, page handles, labels, visible page, stretch flag, host dispatch function, page
  resize callback) under the names TabCtrl.c uses for them. A function pointer is the
  token of the function it points to.
\<close>

datatype funptr =
  Fn_Notify | Fn_StretchTabPage | Fn_CenterTabPage | Fn_TabPage_OnSize | Fn_External nat

record TABCTRL =
  hTab :: HWND
  hVisiblePage :: HWND
  hTabPages :: "HWND list"
  tabNames :: "LPSTR list"
  tabPageCount :: int
  blStretchTabs :: bool
  ParentProc :: funptr
  TabPage_OnSize :: funptr
  Notify_ptr :: funptr
  StretchTabPage_ptr :: funptr
  CenterTabPage_ptr :: funptr

subsection \<open>The window system\<close>

text \<open>
  The window system is not part of the repository. It is modelled by the state TabCtrl.c
  can observe, with the documented effect of each call the file makes:
  \<^item> \<open>ShowWindow\<close> sets the visibility of a window (nothing happens on the null handle);
  \<^item> \<open>SetFocus\<close> moves the keyboard focus;
  \<^item> \<open>PostMessage\<close> appends to the list \<open>posted\<close>, \<open>PostQuitMessage\<close> to
    \<open>quit_posted\<close>;
  \<^item> \<open>SetWindowPos\<close> records the requested placement of a window and raises it;
  \<^item> \<open>GetMessage\<close> returns the next element of \<open>incoming\<close>, the sequence of results
    that message retrieval will deliver (a status and a message), and waits for ever
    when the sequence is exhausted;
  \<^item> what the toolkit decides by itself is a field holding a function: the answer of
    \<open>IsDialogMessage\<close>, the control that \<open>WM_NEXTDLGCTL\<close> focuses, the selection
    of a tab strip after \<open>TabCtrl_SetCurSel\<close>, \<open>TabCtrl_SetCurFocus\<close> or
    \<open>TabCtrl_InsertItem\<close> (given the item count, the selection before and the index
    requested), the handles \<open>CreateDialog\<close> will return (\<open>dlg_supply\<close>, the null
    handle for a failed creation), and the content of freshly allocated memory;
  \<^item> memory allocation succeeds (the source does not check it).
  Calls whose effect lies outside the file (dialog routing, translation and dispatch of a
  message, the tab-strip requests, dialog creation) are appended to the log \<open>calls\<close>.
  What window procedures do when a message is dispatched to them is not modelled.
\<close>

datatype call =
  Call_IsDialogMessage HWND MSG
  | Call_TranslateMessage MSG
  | Call_DispatchMessage MSG
  | Call_SetCurSel HWND int
  | Call_SetCurFocus HWND int
  | Call_NextDlgCtl HWND
  | Call_InsertItem HWND int LPSTR
  | Call_CreateDialog LPSTR HWND HWND

record world =
  m_lptc :: LPTABCTRL
  heap :: "LPTABCTRL \<Rightarrow> TABCTRL option"
  win_style :: "HWND \<Rightarrow> UINT"
  win_userdata :: "HWND \<Rightarrow> nat"
  win_parent :: "HWND \<Rightarrow> HWND"
  win_rect :: "HWND \<Rightarrow> RECT"
  win_client :: "HWND \<Rightarrow> RECT"
  client_origin :: "HWND \<Rightarrow> int \<times> int"
  win_visible :: "HWND \<Rightarrow> bool"
  win_pos :: "HWND \<Rightarrow> (int \<times> int \<times> int \<times> int) option"
  z_order :: "HWND list"
  focus :: HWND
  tab_items :: "HWND \<Rightarrow> LPSTR list"
  tab_item_rect :: "HWND \<Rightarrow> int \<Rightarrow> RECT"
  tab_cursel :: "HWND \<Rightarrow> int"
  strip_SetCurSel :: "int \<Rightarrow> int \<Rightarrow> int \<Rightarrow> int"
  strip_SetCurFocus :: "int \<Rightarrow> int \<Rightarrow> int \<Rightarrow> int"
  strip_InsertItem :: "int \<Rightarrow> int \<Rightarrow> int \<Rightarrow> int"
  dlg_handles :: "HWND \<Rightarrow> MSG \<Rightarrow> bool"
  dlg_prev_tabstop :: "HWND \<Rightarrow> HWND \<Rightarrow> HWND"
  dlg_supply :: "HWND list"
  malloc_garbage :: HWND
  posted :: "MSG list"
  quit_posted :: "int list"
  incoming :: "(int \<times> MSG) list"
  calls :: "call list"

datatype fault = BadPointer | OutOfBounds

type_synonym 'a outcome = "(fault + 'a \<times> world) option"

definition GetWindowLong_STYLE :: "world \<Rightarrow> HWND \<Rightarrow> UINT" where
  "GetWindowLong_STYLE w h = win_style w h"

definition GetWindowLong_USERDATA :: "world \<Rightarrow> HWND \<Rightarrow> nat" where
  "GetWindowLong_USERDATA w h = (if h = NULL then 0 else win_userdata w h)"

definition SetWindowLong_USERDATA :: "HWND \<Rightarrow> nat \<Rightarrow> world \<Rightarrow> world" where
  "SetWindowLong_USERDATA h v w =
     (if h = NULL then w else w\<lparr>win_userdata := (win_userdata w)(h := v)\<rparr>)"

definition GetParent :: "world \<Rightarrow> HWND \<Rightarrow> HWND" where
  "GetParent w h = win_parent w h"

definition ShowWindow :: "HWND \<Rightarrow> int \<Rightarrow> world \<Rightarrow> world" where
  "ShowWindow h nCmdShow w =
     (if h = NULL then w else w\<lparr>win_visible := (win_visible w)(h := (nCmdShow \<noteq> SW_HIDE))\<rparr>)"

definition SetFocus :: "HWND \<Rightarrow> world \<Rightarrow> world" where
  "SetFocus h w = w\<lparr>focus := h\<rparr>"

definition PostMessage :: "HWND \<Rightarrow> UINT \<Rightarrow> UINT \<Rightarrow> UINT \<Rightarrow> world \<Rightarrow> world" where
  "PostMessage h m wp lp w =
     w\<lparr>posted := posted w @ [\<lparr>hwnd = h, message = m, wParam = wp, lParam = lp\<rparr>]\<rparr>"

definition PostQuitMessage :: "int \<Rightarrow> world \<Rightarrow> world" where
  "PostQuitMessage n w = w\<lparr>quit_posted := quit_posted w @ [n]\<rparr>"

definition SetWindowPos :: "HWND \<Rightarrow> int \<Rightarrow> int \<Rightarrow> int \<Rightarrow> int \<Rightarrow> world \<Rightarrow> bool \<times> world" where
  "SetWindowPos h x y cx cy w =
     (if h = NULL then (False, w)
      else (True, w\<lparr>win_pos := (win_pos w)(h := Some (x, y, cx, cy)),
                     z_order := h # removeAll h (z_order w)\<rparr>))"

definition ScreenToClient :: "world \<Rightarrow> HWND \<Rightarrow> int \<times> int \<Rightarrow> int \<times> int" where
  "ScreenToClient w h p = (fst p - fst (client_origin w h), snd p - snd (client_origin w h))"

definition IsDialogMessage :: "HWND \<Rightarrow> MSG \<Rightarrow> world \<Rightarrow> bool \<times> world" where
  "IsDialogMessage h m w = (dlg_handles w h m, w\<lparr>calls := calls w @ [Call_IsDialogMessage h m]\<rparr>)"

definition TranslateMessage :: "MSG \<Rightarrow> world \<Rightarrow> world" where
  "TranslateMessage m w = w\<lparr>calls := calls w @ [Call_TranslateMessage m]\<rparr>"

definition DispatchMessage :: "MSG \<Rightarrow> world \<Rightarrow> world" where
  "DispatchMessage m w = w\<lparr>calls := calls w @ [Call_DispatchMessage m]\<rparr>"

definition TabCtrl_GetItemCount :: "world \<Rightarrow> HWND \<Rightarrow> int" where
  "TabCtrl_GetItemCount w h = int (length (tab_items w h))"

definition TabCtrl_GetCurSel :: "world \<Rightarrow> HWND \<Rightarrow> int" where
  "TabCtrl_GetCurSel w h = tab_cursel w h"

definition TabCtrl_SetCurSel :: "HWND \<Rightarrow> int \<Rightarrow> world \<Rightarrow> world" where
  "TabCtrl_SetCurSel h i w =
     w\<lparr>tab_cursel := (tab_cursel w)(h := strip_SetCurSel w (TabCtrl_GetItemCount w h) (tab_cursel w h) i),
       calls := calls w @ [Call_SetCurSel h i]\<rparr>"

definition TabCtrl_SetCurFocus :: "HWND \<Rightarrow> int \<Rightarrow> world \<Rightarrow> world" where
  "TabCtrl_SetCurFocus h i w =
     w\<lparr>tab_cursel := (tab_cursel w)(h := strip_SetCurFocus w (TabCtrl_GetItemCount w h) (tab_cursel w h) i),
       calls := calls w @ [Call_SetCurFocus h i]\<rparr>"

definition TabCtrl_InsertItem :: "HWND \<Rightarrow> int \<Rightarrow> LPSTR \<Rightarrow> world \<Rightarrow> world" where
  "TabCtrl_InsertItem h i text w =
     (if i < 0 then w\<lparr>calls := calls w @ [Call_InsertItem h i text]\<rparr>
      else w\<lparr>tab_items := (tab_items w)
                 (h := take (nat i) (tab_items w h) @ [text] @ drop (nat i) (tab_items w h)),
             tab_cursel := (tab_cursel w)
                 (h := strip_InsertItem w (TabCtrl_GetItemCount w h) (tab_cursel w h) i),
             calls := calls w @ [Call_InsertItem h i text]\<rparr>)"

definition TabCtrl_GetItemRect :: "world \<Rightarrow> HWND \<Rightarrow> int \<Rightarrow> RECT" where
  "TabCtrl_GetItemRect w h i = tab_item_rect w h i"

definition GetWindowRect :: "world \<Rightarrow> HWND \<Rightarrow> RECT" where
  "GetWindowRect w h = win_rect w h"

definition GetClientRect :: "world \<Rightarrow> HWND \<Rightarrow> RECT" where
  "GetClientRect w h = win_client w h"

definition GetFocus :: "world \<Rightarrow> HWND" where
  "GetFocus w = focus w"

definition SendMessage_NEXTDLGCTL :: "HWND \<Rightarrow> world \<Rightarrow> world" where
  "SendMessage_NEXTDLGCTL h w =
     w\<lparr>focus := dlg_prev_tabstop w h (focus w), calls := calls w @ [Call_NextDlgCtl h]\<rparr>"

definition CreateDialog :: "LPSTR \<Rightarrow> HWND \<Rightarrow> world \<Rightarrow> HWND \<times> world" where
  "CreateDialog tmpl parent w =
     (case dlg_supply w of
        [] \<Rightarrow> (NULL, w\<lparr>calls := calls w @ [Call_CreateDialog tmpl parent NULL]\<rparr>)
      | h # hs \<Rightarrow>
          (if h = NULL
           then (NULL, w\<lparr>dlg_supply := hs, calls := calls w @ [Call_CreateDialog tmpl parent NULL]\<rparr>)
           else (h, w\<lparr>dlg_supply := hs, win_parent := (win_parent w)(h := parent),
                       calls := calls w @ [Call_CreateDialog tmpl parent h]\<rparr>)))"

text \<open>C's division of integers truncates towards zero.\<close>

definition c_div :: "int \<Rightarrow> int \<Rightarrow> int" where
  "c_div a b = sgn a * sgn b * (\<bar>a\<bar> div \<bar>b\<bar>)"

text \<open>Reading through the global pointer, and indexing an array as C does.\<close>

definition array_at :: "'a list \<Rightarrow> int \<Rightarrow> fault + 'a" where
  "array_at xs i = (if 0 \<le> i \<and> i < int (length xs) then Inr (xs ! nat i) else Inl OutOfBounds)"

definition deref_m_lptc :: "world \<Rightarrow> fault + TABCTRL" where
  "deref_m_lptc w = (case heap w (m_lptc w) of None \<Rightarrow> Inl BadPointer | Some tc \<Rightarrow> Inr tc)"

definition page_at :: "TABCTRL \<Rightarrow> int \<Rightarrow> fault + HWND" where
  "page_at tc i = array_at (hTabPages tc) i"

definition store_m_lptc :: "TABCTRL \<Rightarrow> world \<Rightarrow> world" where
  "store_m_lptc tc w = w\<lparr>heap := (heap w)(m_lptc w \<mapsto> tc)\<rparr>"

subsection \<open>TabPageMessageLoop\<close>

text \<open>
  Each \<^verbatim>\<open>return\<close> of the loop is a constructor of \<open>loop_exit\<close>: the retrieval error,
  the hide message, the Tab wrap-around, and the fall through after the quit message.
  The local \<^verbatim>\<open>hFirstStop\<close> is not initialised in C; \<open>None\<close> is that state.
\<close>

datatype loop_exit = Exit_Exception | Exit_Hidden | Exit_TabWrap | Exit_Quit

fun TabPageMessageLoop_while ::
  "HWND \<Rightarrow> bool \<Rightarrow> HWND option \<Rightarrow> (int \<times> MSG) list \<Rightarrow> world \<Rightarrow> loop_exit outcome" where
  "TabPageMessageLoop_while page fFirstStop hFirstStop [] w = None"
| "TabPageMessageLoop_while page fFirstStop hFirstStop ((status, msg) # rest) w0 =
     (let w = w0\<lparr>incoming := rest\<rparr> in
      if status = 0 then Some (Inr (Exit_Quit, PostQuitMessage 0 w))
      else if status = - 1 then Some (Inr (Exit_Exception, w))
      else if message msg = WM_SHOWWINDOW \<and> wParam msg = 0 then Some (Inr (Exit_Hidden, w))
      else if message msg = WM_KEYDOWN \<and> wParam msg = VK_TAB \<and> fFirstStop
              \<and> hFirstStop = Some (hwnd msg) then
        (let hTab1 = GetWindowLong_USERDATA w (GetParent w (hwnd msg)) in
         if hTab1 = NULL then
           (case deref_m_lptc w of
              Inl f \<Rightarrow> Some (Inl f)
            | Inr tc \<Rightarrow> Some (Inr (Exit_TabWrap, SetFocus (hTab tc) w)))
         else Some (Inr (Exit_TabWrap, SetFocus hTab1 w)))
      else
        (let first = (message msg = WM_KEYDOWN \<and> wParam msg = VK_TAB \<and> \<not> fFirstStop);
             fFirstStop' = (if first then True else fFirstStop);
             hFirstStop' = (if first then Some (hwnd msg) else hFirstStop);
             (handled, w1) = IsDialogMessage page msg w;
             w2 = (if \<not> handled then DispatchMessage msg (TranslateMessage msg w1) else w1)
         in TabPageMessageLoop_while page fFirstStop' hFirstStop' rest w2))"

definition TabPageMessageLoop :: "HWND \<Rightarrow> world \<Rightarrow> loop_exit outcome" where
  "TabPageMessageLoop page w = TabPageMessageLoop_while page False None (incoming w) w"

subsection \<open>TabControl_GetClientRect, CenterTabPage, StretchTabPage\<close>

definition TabControl_GetClientRect :: "world \<Rightarrow> HWND \<Rightarrow> RECT" where
  "TabControl_GetClientRect w h =
     (let lStyle = GetWindowLong_STYLE w h;
          prc = GetWindowRect w h;
          (l, t) = ScreenToClient w (GetParent w h) (rc_left prc, rc_top prc);
          (r, b) = ScreenToClient w h (rc_right prc, rc_bottom prc);
          rtab_0 = TabCtrl_GetItemRect w h 0
      in if lStyle AND TCS_BOTTOM \<noteq> 0 \<and> lStyle AND TCS_VERTICAL \<noteq> 0 then
           \<lparr>rc_left = l + 4, rc_top = t + 6,
            rc_right = r - (12 + rc_right rtab_0 - rc_left rtab_0), rc_bottom = b - 12\<rparr>
         else if lStyle AND TCS_VERTICAL \<noteq> 0 then
           \<lparr>rc_left = l + (4 + rc_right rtab_0 - rc_left rtab_0), rc_top = t + 6,
            rc_right = r - (12 + rc_right rtab_0 - rc_left rtab_0), rc_bottom = b - 12\<rparr>
         else if lStyle AND TCS_BOTTOM \<noteq> 0 then
           \<lparr>rc_left = l + 4, rc_top = t + 6,
            rc_right = r - 12, rc_bottom = b - (16 + rc_bottom rtab_0 - rc_top rtab_0)\<rparr>
         else
           \<lparr>rc_left = l + 4, rc_top = t + (6 + rc_bottom rtab_0 - rc_top rtab_0),
            rc_right = r - 12, rc_bottom = b - (16 + rc_bottom rtab_0 - rc_top rtab_0)\<rparr>)"

definition CenterTabPage :: "HWND \<Rightarrow> int \<Rightarrow> world \<Rightarrow> fault + bool \<times> world" where
  "CenterTabPage hTab1 iPage w0 =
     (let w = w0\<lparr>m_lptc := GetWindowLong_USERDATA w0 hTab1\<rparr>;
          rect = TabControl_GetClientRect w hTab1
      in case deref_m_lptc w of
           Inl f \<Rightarrow> Inl f
         | Inr tc \<Rightarrow>
            (case page_at tc iPage of
               Inl f \<Rightarrow> Inl f
             | Inr page \<Rightarrow>
                (let rc = GetClientRect w page;
                     width = rc_right rc - rc_left rc;
                     height = rc_bottom rc - rc_top rc;
                     x = (if width < rc_right rect
                          then rc_left rect + c_div (rc_right rect - width) 2
                          else rc_left rect);
                     y = (if height < rc_bottom rect
                          then rc_top rect + c_div (rc_bottom rect - height) 2
                          else rc_top rect)
                 in Inr (SetWindowPos page x y width height w))))"

definition StretchTabPage :: "HWND \<Rightarrow> int \<Rightarrow> world \<Rightarrow> fault + bool \<times> world" where
  "StretchTabPage hTab1 iPage w0 =
     (let w = w0\<lparr>m_lptc := GetWindowLong_USERDATA w0 hTab1\<rparr>;
          rect = TabControl_GetClientRect w hTab1
      in case deref_m_lptc w of
           Inl f \<Rightarrow> Inl f
         | Inr tc \<Rightarrow>
            (case page_at tc iPage of
               Inl f \<Rightarrow> Inl f
             | Inr page \<Rightarrow>
                 Inr (SetWindowPos page (rc_left rect) (rc_top rect) (rc_right rect)
                        (rc_bottom rect) w)))"

subsection \<open>TabCtrl_OnKeyDown\<close>

definition FirstTabstop_SetFocus :: "HWND \<Rightarrow> world \<Rightarrow> world" where
  "FirstTabstop_SetFocus h w =
     (let w1 = SendMessage_NEXTDLGCTL h w
      in PostMessage (GetFocus w1) WM_KEYDOWN VK_TAB 0 w1)"

text \<open>
  The three statements of the two \<^verbatim>\<open>case\<close> arms that enter the selected page: focus the
  page, focus its first tab stop, run the message loop of the page.
\<close>

definition enter_tab_page :: "TABCTRL \<Rightarrow> int \<Rightarrow> world \<Rightarrow> unit outcome" where
  "enter_tab_page tc currentSel w =
     (case page_at tc currentSel of
        Inl f \<Rightarrow> Some (Inl f)
      | Inr page \<Rightarrow>
         (case TabPageMessageLoop page (FirstTabstop_SetFocus page (SetFocus page w)) of
            None \<Rightarrow> None
          | Some (Inl f) \<Rightarrow> Some (Inl f)
          | Some (Inr (e, w1)) \<Rightarrow> Some (Inr ((), w1))))"

definition select_tab :: "HWND \<Rightarrow> int \<Rightarrow> int \<Rightarrow> world \<Rightarrow> unit outcome" where
  "select_tab h iSel iFocus w =
     Some (Inr ((), TabCtrl_SetCurFocus h iFocus (TabCtrl_SetCurSel h iSel w)))"

definition TabCtrl_OnKeyDown :: "TC_KEYDOWN \<Rightarrow> world \<Rightarrow> unit outcome" where
  "TabCtrl_OnKeyDown tk w =
     (let h = hwndFrom (hdr tk);
          itemCount = TabCtrl_GetItemCount w h;
          currentSel = TabCtrl_GetCurSel w h
      in if itemCount \<le> 1 then Some (Inr ((), w))
         else
          (case deref_m_lptc w of
             Inl f \<Rightarrow> Some (Inl f)
           | Inr tc \<Rightarrow>
              (let verticalTabs = (GetWindowLong_STYLE w (hTab tc) AND TCS_VERTICAL \<noteq> 0);
                   key = wVKey tk
               in if verticalTabs then
                    (if key = VK_PRIOR then
                       (if 0 = currentSel then Some (Inr ((), w))
                        else select_tab h (currentSel - 1) (currentSel - 1) w)
                     else if key = VK_UP then
                       (if 0 = currentSel then Some (Inr ((), w))
                        else select_tab h (currentSel - 1) currentSel w)
                     else if key = VK_NEXT then select_tab h (currentSel + 1) (currentSel + 1) w
                     else if key = VK_DOWN then select_tab h (currentSel + 1) currentSel w
                     else if key = VK_LEFT \<or> key = VK_RIGHT then enter_tab_page tc currentSel w
                     else Some (Inr ((), w)))
                  else
                    (if key = VK_NEXT then
                       (if 0 = currentSel then Some (Inr ((), w))
                        else select_tab h (currentSel - 1) (currentSel - 1) w)
                     else if key = VK_LEFT then
                       (if 0 = currentSel then Some (Inr ((), w))
                        else select_tab h (currentSel - 1) currentSel w)
                     else if key = VK_PRIOR then select_tab h (currentSel + 1) (currentSel + 1) w
                     else if key = VK_RIGHT then select_tab h (currentSel + 1) currentSel w
                     else if key = VK_UP \<or> key = VK_DOWN then enter_tab_page tc currentSel w
                     else Some (Inr ((), w))))))"

subsection \<open>TabCtrl_OnSelChanged and Notify\<close>

definition TabCtrl_OnSelChanged :: "world \<Rightarrow> fault + bool \<times> world" where
  "TabCtrl_OnSelChanged w =
     (case deref_m_lptc w of
        Inl f \<Rightarrow> Inl f
      | Inr tc \<Rightarrow>
         (let iSel = TabCtrl_GetCurSel w (hTab tc);
              w1 = ShowWindow (hVisiblePage tc) FALSE w;
              w2 = PostMessage (hVisiblePage tc) WM_SHOWWINDOW 0 0 w1
          in case page_at tc iSel of
               Inl f \<Rightarrow> Inl f
             | Inr page \<Rightarrow>
                 (let w3 = ShowWindow page TRUE w2
                  in Inr (True, store_m_lptc (tc\<lparr>hVisiblePage := page\<rparr>) w3))))"

definition Notify :: "TC_KEYDOWN \<Rightarrow> world \<Rightarrow> bool outcome" where
  "Notify pnm w0 =
     (let w = w0\<lparr>m_lptc := GetWindowLong_USERDATA w0 (hwndFrom (hdr pnm))\<rparr>
      in if code (hdr pnm) = TCN_KEYDOWN then
           (case TabCtrl_OnKeyDown pnm w of
              None \<Rightarrow> None
            | Some (Inl f) \<Rightarrow> Some (Inl f)
            | Some (Inr (u, w1)) \<Rightarrow> Some (TabCtrl_OnSelChanged w1))
         else if code (hdr pnm) = TCN_SELCHANGE then Some (TabCtrl_OnSelChanged w)
         else Some (Inr (False, w)))"

subsection \<open>New_TabControl\<close>

text \<open>
  The arrays \<^verbatim>\<open>tabNames\<close> and \<^verbatim>\<open>dlgNames\<close> are lists of strings, \<open>None\<close> being the
  null pointer. The counting loop reads \<^verbatim>\<open>dlgNames\<close> up to its first null entry; an
  array without one is read past its end.
\<close>

definition New_TabControl_body :: "HWND \<Rightarrow> LPSTR list \<Rightarrow> int \<Rightarrow> world \<Rightarrow> fault + world" where
  "New_TabControl_body hTab1 dlgNames i w =
     (case deref_m_lptc w of
        Inl f \<Rightarrow> Inl f
      | Inr tc \<Rightarrow>
         (case array_at (tabNames tc) i of
            Inl f \<Rightarrow> Inl f
          | Inr text \<Rightarrow>
             (let w1 = TabCtrl_InsertItem (hTab tc) i text w
              in case array_at dlgNames i of
                   Inl f \<Rightarrow> Inl f
                 | Inr tmpl \<Rightarrow>
                    (let (page, w2) = CreateDialog tmpl (GetParent w1 (hTab tc)) w1
                     in if \<not> (0 \<le> i \<and> i < int (length (hTabPages tc))) then Inl OutOfBounds
                        else
                         (let w3 = store_m_lptc (tc\<lparr>hTabPages := (hTabPages tc)[nat i := page]\<rparr>) w2;
                              w4 = SetWindowLong_USERDATA page hTab1 w3
                          in case (if blStretchTabs tc then StretchTabPage (hTab tc) i w4
                                   else CenterTabPage (hTab tc) i w4) of
                               Inl f \<Rightarrow> Inl f
                             | Inr (ok, w5) \<Rightarrow> Inr w5)))))"

fun New_TabControl_for :: "HWND \<Rightarrow> LPSTR list \<Rightarrow> nat list \<Rightarrow> world \<Rightarrow> fault + world" where
  "New_TabControl_for hTab1 dlgNames [] w = Inr w"
| "New_TabControl_for hTab1 dlgNames (i # rest) w =
     (case New_TabControl_body hTab1 dlgNames (int i) w of
        Inl f \<Rightarrow> Inl f
      | Inr w1 \<Rightarrow> New_TabControl_for hTab1 dlgNames rest w1)"

definition New_TabControl ::
  "LPTABCTRL \<Rightarrow> HWND \<Rightarrow> LPSTR list \<Rightarrow> LPSTR list \<Rightarrow> funptr \<Rightarrow> funptr option \<Rightarrow> bool
     \<Rightarrow> world \<Rightarrow> fault + world" where
  "New_TabControl lptc hTab1 tabNames1 dlgNames ParentProc1 OnSize fStretch w0 =
     (let w1 = SetWindowLong_USERDATA hTab1 lptc (w0\<lparr>m_lptc := lptc\<rparr>)
      in case deref_m_lptc w1 of
           Inl f \<Rightarrow> Inl f
         | Inr tc0 \<Rightarrow>
            (if None \<notin> set dlgNames then Inl OutOfBounds
             else
              (let n = length (takeWhile (\<lambda>p. p \<noteq> None) dlgNames);
                   tc = tc0\<lparr>hTab := hTab1, tabNames := tabNames1, blStretchTabs := fStretch,
                           ParentProc := ParentProc1,
                           TabPage_OnSize := (case OnSize of Some f \<Rightarrow> f | None \<Rightarrow> Fn_TabPage_OnSize),
                           Notify_ptr := Fn_Notify,
                           StretchTabPage_ptr := Fn_StretchTabPage,
                           CenterTabPage_ptr := Fn_CenterTabPage,
                           tabPageCount := int n,
                           hTabPages := replicate n (malloc_garbage w1)\<rparr>;
                   w2 = store_m_lptc tc w1
               in case New_TabControl_for hTab1 dlgNames [0..<n] w2 of
                    Inl f \<Rightarrow> Inl f
                  | Inr w3 \<Rightarrow>
                     (case deref_m_lptc w3 of
                        Inl f \<Rightarrow> Inl f
                      | Inr tc3 \<Rightarrow>
                         (case page_at tc3 0 of
                            Inl f \<Rightarrow> Inl f
                          | Inr p0 \<Rightarrow>
                             (let w4 = ShowWindow p0 SW_SHOW w3
                              in Inr (store_m_lptc (tc3\<lparr>hVisiblePage := p0\<rparr>) w4)))))))"

section \<open>Notions used in the statements\<close>

subsection \<open>Messages and the first tab stop\<close>

text \<open>
  A hide message is \<^verbatim>\<open>WM_SHOWWINDOW\<close> with a false \<^verbatim>\<open>wParam\<close>, a Tab key-down is
  \<^verbatim>\<open>WM_KEYDOWN\<close> with \<^verbatim>\<open>VK_TAB\<close>; \<open>first_tab_stop\<close> is the window of the first
  Tab key-down in a sequence of retrieved messages. \<open>loop_continues\<close> says that an
  iteration of the loop reaches its end, and \<open>dlg_process\<close> is what that iteration does
  to the world.
\<close>

definition is_hide :: "MSG \<Rightarrow> bool" where
  "is_hide m \<longleftrightarrow> message m = WM_SHOWWINDOW \<and> wParam m = 0"

definition is_tab_key :: "MSG \<Rightarrow> bool" where
  "is_tab_key m \<longleftrightarrow> message m = WM_KEYDOWN \<and> wParam m = VK_TAB"

fun first_tab_stop :: "(int \<times> MSG) list \<Rightarrow> HWND option" where
  "first_tab_stop [] = None"
| "first_tab_stop ((s, m) # rest) = (if is_tab_key m then Some (hwnd m) else first_tab_stop rest)"

definition loop_continues :: "int \<Rightarrow> MSG \<Rightarrow> bool \<Rightarrow> HWND option \<Rightarrow> bool" where
  "loop_continues s m f h \<longleftrightarrow>
     s \<noteq> 0 \<and> s \<noteq> - 1 \<and> \<not> is_hide m \<and> \<not> (is_tab_key m \<and> f \<and> h = Some (hwnd m))"

definition dlg_process :: "HWND \<Rightarrow> MSG \<Rightarrow> world \<Rightarrow> world" where
  "dlg_process page m w =
     (if dlg_handles w page m then snd (IsDialogMessage page m w)
      else DispatchMessage m (TranslateMessage m (snd (IsDialogMessage page m w))))"

definition tab_on :: "HWND \<Rightarrow> MSG" where
  "tab_on h = \<lparr>hwnd = h, message = WM_KEYDOWN, wParam = VK_TAB, lParam = 0\<rparr>"

definition hide_for :: "HWND \<Rightarrow> MSG" where
  "hide_for h = \<lparr>hwnd = h, message = WM_SHOWWINDOW, wParam = 0, lParam = 0\<rparr>"

text \<open>What an iteration that reaches its end, and the loop as a whole, leave untouched.\<close>

definition same_outside_loop :: "world \<Rightarrow> world \<Rightarrow> bool" where
  "same_outside_loop w w' \<longleftrightarrow>
     posted w' = posted w \<and> quit_posted w' = quit_posted w \<and> focus w' = focus w
     \<and> heap w' = heap w \<and> m_lptc w' = m_lptc w \<and> win_userdata w' = win_userdata w
     \<and> win_parent w' = win_parent w \<and> win_visible w' = win_visible w
     \<and> tab_cursel w' = tab_cursel w \<and> tab_items w' = tab_items w"

subsection \<open>An example state\<close>

text \<open>
  A horizontal tab strip (window 100, child of window 50) with three pages (windows 11, 12
  and 13), the first one selected and visible; the controls 21 and 22 are children of page
  11. It is used to run the functions on concrete inputs.
\<close>

definition example_tabctrl :: TABCTRL where
  "example_tabctrl =
     \<lparr>hTab = 100, hVisiblePage = 11, hTabPages = [11, 12, 13],
      tabNames = [Some ''One'', Some ''Two'', Some ''Three'', None], tabPageCount = 3,
      blStretchTabs = False, ParentProc = Fn_External 1, TabPage_OnSize = Fn_TabPage_OnSize,
      Notify_ptr = Fn_Notify, StretchTabPage_ptr = Fn_StretchTabPage,
      CenterTabPage_ptr = Fn_CenterTabPage\<rparr>"

definition example_world :: world where
  "example_world =
     \<lparr>m_lptc = 1,
      heap = (\<lambda>p. if p = 1 then Some example_tabctrl else None),
      win_style = (\<lambda>h. 0),
      win_userdata = (\<lambda>h. if h = 100 then 1 else if h = 11 \<or> h = 12 \<or> h = 13 then 100 else 0),
      win_parent = (\<lambda>h. if h = 21 \<or> h = 22 then 11 else if h = 0 then 0 else 50),
      win_rect = (\<lambda>h. \<lparr>rc_left = 110, rc_top = 120, rc_right = 510, rc_bottom = 420\<rparr>),
      win_client = (\<lambda>h. \<lparr>rc_left = 0, rc_top = 0, rc_right = 200, rc_bottom = 101\<rparr>),
      client_origin = (\<lambda>h. if h = 50 then (100, 100) else (110, 120)),
      win_visible = (\<lambda>h. h = 11 \<or> h = 100 \<or> h = 50),
      win_pos = (\<lambda>h. None),
      z_order = [],
      focus = 100,
      tab_items = (\<lambda>h. if h = 100 then [Some ''One'', Some ''Two'', Some ''Three''] else []),
      tab_item_rect = (\<lambda>h i. \<lparr>rc_left = 2, rc_top = 2, rc_right = 62, rc_bottom = 22\<rparr>),
      tab_cursel = (\<lambda>h. 0),
      strip_SetCurSel = (\<lambda>n cur i. if 0 \<le> i \<and> i < n then i else cur),
      strip_SetCurFocus = (\<lambda>n cur i. cur),
      strip_InsertItem = (\<lambda>n cur i. if n = 0 then 0 else cur),
      dlg_handles = (\<lambda>h m. hwnd m = 21 \<or> hwnd m = 22),
      dlg_prev_tabstop = (\<lambda>h f. 22),
      dlg_supply = [],
      malloc_garbage = 0,
      posted = [],
      quit_posted = [],
      incoming = [],
      calls = []\<rparr>"

text \<open>
  The example with one more control, 23, whose parent is window 40; the user data of window
  40 holds the handle 77.
\<close>

definition foreign_parent_world :: world where
  "foreign_parent_world =
     example_world\<lparr>win_parent := (win_parent example_world)(23 := 40),
                    win_userdata := (win_userdata example_world)(40 := 77)\<rparr>"

subsection \<open>Keys and selection requests\<close>

text \<open>
  \<open>sel_requests\<close> reads the \<^verbatim>\<open>TabCtrl_SetCurSel\<close> requests off the call log. The keys are
  classified as the two \<^verbatim>\<open>switch\<close> statements of \<^verbatim>\<open>TabCtrl_OnKeyDown\<close> use them in each
  orientation; \<open>key_ignored\<close> collects the cases in which the handler returns without
  doing anything.
\<close>

fun sel_requests :: "call list \<Rightarrow> (HWND \<times> int) list" where
  "sel_requests [] = []"
| "sel_requests (Call_SetCurSel h i # cs) = (h, i) # sel_requests cs"
| "sel_requests (c # cs) = sel_requests cs"

definition is_prev_key :: "bool \<Rightarrow> WORD \<Rightarrow> bool" where
  "is_prev_key vertical key =
     (if vertical then key = VK_PRIOR \<or> key = VK_UP else key = VK_NEXT \<or> key = VK_LEFT)"

definition is_next_key :: "bool \<Rightarrow> WORD \<Rightarrow> bool" where
  "is_next_key vertical key =
     (if vertical then key = VK_NEXT \<or> key = VK_DOWN else key = VK_PRIOR \<or> key = VK_RIGHT)"

definition is_enter_key :: "bool \<Rightarrow> WORD \<Rightarrow> bool" where
  "is_enter_key vertical key =
     (if vertical then key = VK_LEFT \<or> key = VK_RIGHT else key = VK_UP \<or> key = VK_DOWN)"

definition strip_is_vertical :: "world \<Rightarrow> TABCTRL \<Rightarrow> bool" where
  "strip_is_vertical w tc \<longleftrightarrow> GetWindowLong_STYLE w (hTab tc) AND TCS_VERTICAL \<noteq> 0"

definition key_down :: "HWND \<Rightarrow> WORD \<Rightarrow> TC_KEYDOWN" where
  "key_down h key = \<lparr>hdr = \<lparr>hwndFrom = h, idFrom = 0, code = TCN_KEYDOWN\<rparr>, wVKey = key, flags = 0\<rparr>"

definition same_tab_state :: "world \<Rightarrow> world \<Rightarrow> bool" where
  "same_tab_state w w' \<longleftrightarrow>
     heap w' = heap w \<and> m_lptc w' = m_lptc w \<and> tab_cursel w' = tab_cursel w
     \<and> tab_items w' = tab_items w \<and> win_visible w' = win_visible w \<and> win_style w' = win_style w
     \<and> sel_requests (calls w') = sel_requests (calls w)"

text \<open>
  Variants of the example: a vertical strip that reports no selection, the example with its
  second tab selected, and a notification that is neither key-down nor selection-changed.
\<close>

definition unselected_world :: world where
  "unselected_world =
     example_world\<lparr>tab_cursel := (\<lambda>h. - 1), win_style := (\<lambda>h. TCS_VERTICAL)\<rparr>"

definition second_selected_world :: world where
  "second_selected_world = example_world\<lparr>tab_cursel := (\<lambda>h. 1)\<rparr>"

definition key_ignored :: "TC_KEYDOWN \<Rightarrow> world \<Rightarrow> bool" where
  "key_ignored tk w =
     (TabCtrl_GetItemCount w (hwndFrom (hdr tk)) \<le> 1
      \<or> (case deref_m_lptc w of
            Inl f \<Rightarrow> False
          | Inr tc \<Rightarrow>
              (is_prev_key (strip_is_vertical w tc) (wVKey tk)
                 \<and> TabCtrl_GetCurSel w (hwndFrom (hdr tk)) = 0)
              \<or> \<not> (is_prev_key (strip_is_vertical w tc) (wVKey tk)
                     \<or> is_next_key (strip_is_vertical w tc) (wVKey tk)
                     \<or> is_enter_key (strip_is_vertical w tc) (wVKey tk))))"

definition other_notification :: TC_KEYDOWN where
  "other_notification = \<lparr>hdr = \<lparr>hwndFrom = 100, idFrom = 0, code = 0 - 552\<rparr>, wVKey = 0, flags = 0\<rparr>"

subsection \<open>Placement and construction\<close>

text \<open>
  The two placement policies as the spec words them: stretched, the page takes the origin
  and size of the target rectangle; centred, it keeps its natural size and is offset by half
  the free space on each axis where it is strictly smaller than the target.
\<close>

definition placement :: "bool \<Rightarrow> RECT \<Rightarrow> RECT \<Rightarrow> int \<times> int \<times> int \<times> int" where
  "placement stretch target natural =
     (if stretch then (rc_left target, rc_top target, rc_right target, rc_bottom target)
      else
       (let width = rc_right natural - rc_left natural;
            height = rc_bottom natural - rc_top natural
        in ((if width < rc_right target then rc_left target + (rc_right target - width) div 2
             else rc_left target),
            (if height < rc_bottom target then rc_top target + (rc_bottom target - height) div 2
             else rc_top target),
            width, height)))"

text \<open>
  The example before construction: no page exists, three dialogs can be created. In the
  second world the dialog that will be window 12 is visible as created.
\<close>

definition unbuilt_world :: world where
  "unbuilt_world =
     example_world\<lparr>dlg_supply := [11, 12, 13], win_visible := (\<lambda>h. h = 100 \<or> h = 50),
                    tab_items := (\<lambda>h. [])\<rparr>"

definition visible_dialog_world :: world where
  "visible_dialog_world = unbuilt_world\<lparr>win_visible := (\<lambda>h. h = 100 \<or> h = 50 \<or> h = 12)\<rparr>"

definition example_labels :: "LPSTR list" where
  "example_labels = [Some ''One'', Some ''Two'', Some ''Three'', None]"

definition example_templates :: "string list" where
  "example_templates = [''DLG_ONE'', ''DLG_TWO'', ''DLG_THREE'']"

section \<open>The message loop of a page\<close>

lemma loop_incoming_irrelevant:
  "TabPageMessageLoop_while page f h msgs (w\<lparr>incoming := x\<rparr>) = TabPageMessageLoop_while page f h msgs w"
  by (cases msgs) (auto simp: Let_def)

lemma loop_Cons_continue:
  "loop_continues s m f h \<Longrightarrow>
   TabPageMessageLoop_while page f h ((s, m) # rest) w =
   TabPageMessageLoop_while page (f \<or> is_tab_key m)
     (if is_tab_key m \<and> \<not> f then Some (hwnd m) else h) rest
     (dlg_process page m (w\<lparr>incoming := rest\<rparr>))"
  by (auto simp: loop_continues_def is_hide_def is_tab_key_def dlg_process_def Let_def
      IsDialogMessage_def)

lemma loop_Cons_exit:
  "\<not> loop_continues s m f h \<Longrightarrow> TabPageMessageLoop_while page f h ((s, m) # rest) w \<noteq> None"
  by (auto simp: loop_continues_def is_hide_def is_tab_key_def Let_def split: sum.splits)

lemma dlg_process_incoming:
  "dlg_process page m (w\<lparr>incoming := x\<rparr>) = (dlg_process page m w)\<lparr>incoming := x\<rparr>"
  by (simp add: dlg_process_def IsDialogMessage_def DispatchMessage_def TranslateMessage_def)

lemma dlg_process_fields:
  "posted (dlg_process page m w) = posted w"
  "quit_posted (dlg_process page m w) = quit_posted w"
  "focus (dlg_process page m w) = focus w"
  "heap (dlg_process page m w) = heap w"
  "m_lptc (dlg_process page m w) = m_lptc w"
  "win_userdata (dlg_process page m w) = win_userdata w"
  "win_parent (dlg_process page m w) = win_parent w"
  "win_visible (dlg_process page m w) = win_visible w"
  "tab_cursel (dlg_process page m w) = tab_cursel w"
  "tab_items (dlg_process page m w) = tab_items w"
  by (simp_all add: dlg_process_def IsDialogMessage_def DispatchMessage_def TranslateMessage_def)

lemma loop_prefix:
  assumes "TabPageMessageLoop_while page f h pre w = None"
  shows "\<exists>w'. (\<forall>rest. TabPageMessageLoop_while page f h (pre @ rest) w =
            TabPageMessageLoop_while page (f \<or> first_tab_stop pre \<noteq> None)
              (if f then h else case first_tab_stop pre of None \<Rightarrow> h | Some c \<Rightarrow> Some c) rest w')
          \<and> same_outside_loop w w'"
  using assms
proof (induction pre arbitrary: f h w)
  case Nil
  show ?case by (rule exI[of _ w]) (simp add: same_outside_loop_def)
next
  case (Cons a pre)
  obtain s0 m0 where a: "a = (s0, m0)" by (cases a)
  have c: "loop_continues s0 m0 f h"
    using Cons.prems loop_Cons_exit unfolding a by blast
  let ?f = "f \<or> is_tab_key m0" and ?h = "if is_tab_key m0 \<and> \<not> f then Some (hwnd m0) else h"
  have step: "TabPageMessageLoop_while page f h ((s0, m0) # msgs) w
        = TabPageMessageLoop_while page ?f ?h msgs (dlg_process page m0 w)" for msgs
    unfolding loop_Cons_continue[OF c]
    by (simp only: dlg_process_incoming loop_incoming_irrelevant)
  have "TabPageMessageLoop_while page ?f ?h pre (dlg_process page m0 w) = None"
    using Cons.prems unfolding a step .
  from Cons.IH[OF this] obtain w' where
    w': "\<And>rest. TabPageMessageLoop_while page ?f ?h (pre @ rest) (dlg_process page m0 w) =
            TabPageMessageLoop_while page (?f \<or> first_tab_stop pre \<noteq> None)
              (if ?f then ?h else case first_tab_stop pre of None \<Rightarrow> ?h | Some c \<Rightarrow> Some c) rest w'"
    and same: "same_outside_loop (dlg_process page m0 w) w'"
    by blast
  have fl: "(?f \<or> first_tab_stop pre \<noteq> None) = (f \<or> first_tab_stop (a # pre) \<noteq> None)"
    unfolding a by simp
  have hd: "(if ?f then ?h else case first_tab_stop pre of None \<Rightarrow> ?h | Some c \<Rightarrow> Some c)
      = (if f then h else case first_tab_stop (a # pre) of None \<Rightarrow> h | Some c \<Rightarrow> Some c)"
    unfolding a by simp
  have "\<forall>rest. TabPageMessageLoop_while page f h ((a # pre) @ rest) w =
            TabPageMessageLoop_while page (f \<or> first_tab_stop (a # pre) \<noteq> None)
              (if f then h else case first_tab_stop (a # pre) of None \<Rightarrow> h | Some c \<Rightarrow> Some c) rest w'"
    unfolding fl[symmetric] hd[symmetric] using w' step by (simp add: a del: TabPageMessageLoop_while.simps)
  moreover have "same_outside_loop w w'"
    using same by (simp add: same_outside_loop_def dlg_process_fields)
  ultimately show ?case by blast
qed

lemma loop_entry_prefix:
  assumes "TabPageMessageLoop page (w\<lparr>incoming := pre\<rparr>) = None"
  shows "\<exists>w'. (\<forall>rest. TabPageMessageLoop page (w\<lparr>incoming := pre @ rest\<rparr>) =
            TabPageMessageLoop_while page (first_tab_stop pre \<noteq> None) (first_tab_stop pre) rest w')
          \<and> same_outside_loop w w'"
proof -
  have "TabPageMessageLoop_while page False None pre w = None"
    using assms by (simp add: TabPageMessageLoop_def loop_incoming_irrelevant)
  from loop_prefix[OF this] obtain w' where
    "\<And>rest. TabPageMessageLoop_while page False None (pre @ rest) w =
            TabPageMessageLoop_while page (False \<or> first_tab_stop pre \<noteq> None)
              (if False then None else case first_tab_stop pre of None \<Rightarrow> None | Some c \<Rightarrow> Some c) rest w'"
    and "same_outside_loop w w'" by blast
  moreover have "(case first_tab_stop pre of None \<Rightarrow> None | Some c \<Rightarrow> Some c) = first_tab_stop pre"
    by (simp split: option.splits)
  ultimately show ?thesis
    by (auto simp: TabPageMessageLoop_def loop_incoming_irrelevant simp del: TabPageMessageLoop_while.simps)
qed

lemmas loop_eval = TabPageMessageLoop_def Let_def IsDialogMessage_def DispatchMessage_def
  TranslateMessage_def PostQuitMessage_def SetFocus_def GetWindowLong_USERDATA_def GetParent_def
  deref_m_lptc_def tab_on_def hide_for_def example_world_def example_tabctrl_def winconst

text \<open>
  Claim C1, as amended. Whatever the loop has retrieved so far without returning (\<open>pre\<close>),
  retrieving a hide message (\<^verbatim>\<open>WM_SHOWWINDOW\<close> with a false \<^verbatim>\<open>wParam\<close>) makes
  \<^verbatim>\<open>TabPageMessageLoop\<close> return through its hide exit, whichever window the message is
  addressed to: the loop does not compare \<^verbatim>\<open>msg.hwnd\<close> with its page. The message that
  \<^verbatim>\<open>TabCtrl_OnSelChanged\<close> posts to the loop's page is one such message. Nothing is posted
  and the focus does not move on this exit.
\<close>

theorem hide_message_ends_loop:
  assumes "TabPageMessageLoop page (w\<lparr>incoming := pre\<rparr>) = None"
    and "status \<noteq> 0" and "status \<noteq> - 1" and "is_hide m"
  shows "\<exists>w'. TabPageMessageLoop page (w\<lparr>incoming := pre @ (status, m) # rest\<rparr>)
              = Some (Inr (Exit_Hidden, w'))
          \<and> incoming w' = rest \<and> posted w' = posted w \<and> quit_posted w' = quit_posted w
          \<and> focus w' = focus w"
proof -
  from loop_entry_prefix[OF assms(1)] obtain w1 where
    run: "\<And>r. TabPageMessageLoop page (w\<lparr>incoming := pre @ r\<rparr>) =
            TabPageMessageLoop_while page (first_tab_stop pre \<noteq> None) (first_tab_stop pre) r w1"
    and same: "same_outside_loop w w1" by blast
  have "TabPageMessageLoop_while page (first_tab_stop pre \<noteq> None) (first_tab_stop pre)
          ((status, m) # rest) w1 = Some (Inr (Exit_Hidden, w1\<lparr>incoming := rest\<rparr>))"
    using assms(2-4) by (simp add: is_hide_def Let_def)
  then show ?thesis using same unfolding run
    by (simp add: same_outside_loop_def)
qed

text \<open>
  Witness for C1: the loop of page 11 has retrieved a Tab key-down on control 21 and is
  still running; the hide message for page 11 then ends it.
\<close>

theorem hide_message_ends_loop_witness:
  "TabPageMessageLoop 11 (example_world\<lparr>incoming := [(1, tab_on 21)]\<rparr>) = None
   \<and> (1::int) \<noteq> 0 \<and> (1::int) \<noteq> - 1 \<and> is_hide (hide_for 11)
   \<and> (\<exists>w'. TabPageMessageLoop 11 (example_world\<lparr>incoming := [(1, tab_on 21)] @ (1, hide_for 11) # []\<rparr>)
              = Some (Inr (Exit_Hidden, w'))
          \<and> incoming w' = [] \<and> posted w' = posted example_world
          \<and> quit_posted w' = quit_posted example_world \<and> focus w' = focus example_world)"
proof -
  have a: "TabPageMessageLoop 11 (example_world\<lparr>incoming := [(1, tab_on 21)]\<rparr>) = None"
    by (simp add: loop_eval)
  have b: "is_hide (hide_for 11)" by (simp add: is_hide_def hide_for_def)
  have c: "(1::int) \<noteq> 0" "(1::int) \<noteq> - 1" by simp_all
  from hide_message_ends_loop[OF a c b, of "[]"] a b show ?thesis by simp
qed

text \<open>
  Counterexample to C1 as stated (a hide message is an exit signal only when it matches the
  page of the loop): the loop entered for page 11 retrieves a hide message addressed to
  page 12 and returns through the hide exit.
\<close>

theorem hide_for_other_window_counterexample:
  "hwnd (hide_for 12) \<noteq> 11
   \<and> TabPageMessageLoop 11 (example_world\<lparr>incoming := [(1, hide_for 12)]\<rparr>)
       = Some (Inr (Exit_Hidden, example_world\<lparr>incoming := []\<rparr>))"
  by (simp add: loop_eval)

text \<open>
  Claim C2, as amended. Entered afresh, the loop has no first tab stop. After any messages \<open>pre\<close>
  retrieved without returning, it continues as the loop whose flag says whether a Tab
  key-down was seen and whose recorded control is the window of the first one. When the
  next message is a Tab key-down on that same window, the loop sets the focus and returns:
  the focus goes to the handle kept in the user data of the control's parent, or to
  \<^verbatim>\<open>m_lptc->hTab\<close> when that is null; this is the tab strip whenever that user data is null
  or the handle of the strip. A Tab key-down on any other window leaves the loop running.
\<close>

theorem second_tab_on_first_stop_leaves_page:
  assumes "TabPageMessageLoop page (w\<lparr>incoming := pre\<rparr>) = None"
    and "status \<noteq> 0" and "status \<noteq> - 1" and "is_tab_key m"
    and "deref_m_lptc w = Inr tc"
  shows "(\<exists>w1. \<forall>rest. TabPageMessageLoop page (w\<lparr>incoming := pre @ rest\<rparr>) =
            TabPageMessageLoop_while page (first_tab_stop pre \<noteq> None) (first_tab_stop pre) rest w1)
       \<and> (if first_tab_stop pre = Some (hwnd m)
          then \<exists>w'. TabPageMessageLoop page (w\<lparr>incoming := pre @ (status, m) # rest\<rparr>)
                     = Some (Inr (Exit_TabWrap, w'))
                 \<and> incoming w' = rest
                 \<and> focus w' = (if GetWindowLong_USERDATA w (GetParent w (hwnd m)) = NULL then hTab tc
                               else GetWindowLong_USERDATA w (GetParent w (hwnd m)))
                 \<and> (GetWindowLong_USERDATA w (GetParent w (hwnd m)) \<in> {NULL, hTab tc}
                      \<longrightarrow> focus w' = hTab tc)
          else TabPageMessageLoop page (w\<lparr>incoming := pre @ [(status, m)]\<rparr>) = None)"
proof -
  from loop_entry_prefix[OF assms(1)] obtain w1 where
    run: "\<And>r. TabPageMessageLoop page (w\<lparr>incoming := pre @ r\<rparr>) =
            TabPageMessageLoop_while page (first_tab_stop pre \<noteq> None) (first_tab_stop pre) r w1"
    and same: "same_outside_loop w w1" by blast
  have d: "deref_m_lptc (w1\<lparr>incoming := x\<rparr>) = Inr tc" for x
    using assms(5) same by (simp add: deref_m_lptc_def same_outside_loop_def)
  have ud: "GetWindowLong_USERDATA (w1\<lparr>incoming := x\<rparr>) (GetParent (w1\<lparr>incoming := x\<rparr>) h)
      = GetWindowLong_USERDATA w (GetParent w h)" for x h
    using same by (simp add: GetWindowLong_USERDATA_def GetParent_def same_outside_loop_def)
  have hide: "\<not> (message m = WM_SHOWWINDOW \<and> wParam m = 0)"
    using assms(4) by (auto simp: is_tab_key_def winconst)
  have tab: "message m = WM_KEYDOWN" "wParam m = VK_TAB"
    using assms(4) by (auto simp: is_tab_key_def)
  have A: "\<exists>w1. \<forall>rest. TabPageMessageLoop page (w\<lparr>incoming := pre @ rest\<rparr>) =
            TabPageMessageLoop_while page (first_tab_stop pre \<noteq> None) (first_tab_stop pre) rest w1"
    using run by blast
  have B: "\<exists>w'. TabPageMessageLoop page (w\<lparr>incoming := pre @ (status, m) # rest\<rparr>)
                     = Some (Inr (Exit_TabWrap, w'))
                 \<and> incoming w' = rest
                 \<and> focus w' = (if GetWindowLong_USERDATA w (GetParent w (hwnd m)) = NULL then hTab tc
                               else GetWindowLong_USERDATA w (GetParent w (hwnd m)))
                 \<and> (GetWindowLong_USERDATA w (GetParent w (hwnd m)) \<in> {NULL, hTab tc}
                      \<longrightarrow> focus w' = hTab tc)"
    if "first_tab_stop pre = Some (hwnd m)"
    unfolding run using that assms(2,3) hide tab
    by (auto simp: Let_def d ud SetFocus_def)
  have C: "TabPageMessageLoop page (w\<lparr>incoming := pre @ [(status, m)]\<rparr>) = None"
    if "first_tab_stop pre \<noteq> Some (hwnd m)"
    unfolding run using that assms(2,3) hide tab
    by (auto simp: Let_def IsDialogMessage_def)
  from A B C show ?thesis by (simp only: if_split) blast
qed

text \<open>
  Witness for C2: in the loop of page 11, Tab key-downs arrive on the controls 21, 22 and
  again 21 (whose parent, page 11, keeps the tab strip 100 in its user data): the third one
  moves the focus to 100 and ends the loop. The second one, on control 22, does not.
\<close>

theorem second_tab_on_first_stop_leaves_page_witness:
  "TabPageMessageLoop 11 (example_world\<lparr>incoming := [(1, tab_on 21), (1, tab_on 22)]\<rparr>) = None
   \<and> is_tab_key (tab_on 21) \<and> deref_m_lptc example_world = Inr example_tabctrl
   \<and> first_tab_stop [(1, tab_on 21), (1, tab_on 22)] = Some (hwnd (tab_on 21))
   \<and> GetWindowLong_USERDATA example_world (GetParent example_world (hwnd (tab_on 21)))
       \<in> {NULL, hTab example_tabctrl}
   \<and> (\<exists>w'. TabPageMessageLoop 11
              (example_world\<lparr>incoming := [(1, tab_on 21), (1, tab_on 22)] @ (1, tab_on 21) # []\<rparr>)
              = Some (Inr (Exit_TabWrap, w'))
          \<and> incoming w' = [] \<and> focus w' = hTab example_tabctrl)
   \<and> TabPageMessageLoop 11 (example_world\<lparr>incoming := [(1, tab_on 21)]\<rparr>) = None
   \<and> first_tab_stop [(1, tab_on 21)] \<noteq> Some (hwnd (tab_on 22))
   \<and> TabPageMessageLoop 11 (example_world\<lparr>incoming := [(1, tab_on 21)] @ [(1, tab_on 22)]\<rparr>) = None"
proof -
  have a: "TabPageMessageLoop 11 (example_world\<lparr>incoming := [(1, tab_on 21), (1, tab_on 22)]\<rparr>) = None"
    by (simp add: loop_eval)
  have a': "TabPageMessageLoop 11 (example_world\<lparr>incoming := [(1, tab_on 21)]\<rparr>) = None"
    by (simp add: loop_eval)
  have s: "(1::int) \<noteq> 0" "(1::int) \<noteq> - 1" by simp_all
  have t: "is_tab_key (tab_on 21)" "is_tab_key (tab_on 22)"
    by (simp_all add: is_tab_key_def tab_on_def)
  have d: "deref_m_lptc example_world = Inr example_tabctrl"
    by (simp add: deref_m_lptc_def example_world_def)
  have f: "first_tab_stop [(1, tab_on 21), (1, tab_on 22)] = Some (hwnd (tab_on 21))"
    "first_tab_stop [(1, tab_on 21)] \<noteq> Some (hwnd (tab_on 22))"
    by (simp_all add: t) (simp add: tab_on_def)
  have u: "GetWindowLong_USERDATA example_world (GetParent example_world (hwnd (tab_on 21)))
       \<in> {NULL, hTab example_tabctrl}"
    by (simp add: GetWindowLong_USERDATA_def GetParent_def example_world_def example_tabctrl_def
        tab_on_def)
  from second_tab_on_first_stop_leaves_page[OF a s t(1) d, of "[]"]
    second_tab_on_first_stop_leaves_page[OF a' s t(2) d, of "[]"]
  show ?thesis using a a' t d f u by auto
qed

text \<open>
  Counterexample to C2 as stated (the focus moves to the tab strip): control 23 is a child
  of window 40, whose user data holds the handle 77. The loop of page 11 retrieves two Tab
  key-downs on control 23 and returns with the focus on window 77, not on the strip 100.
\<close>

theorem tab_wrap_focus_elsewhere_counterexample:
  "deref_m_lptc foreign_parent_world = Inr example_tabctrl \<and> hTab example_tabctrl = 100
   \<and> TabPageMessageLoop 11 (foreign_parent_world\<lparr>incoming := [(1, tab_on 23), (1, tab_on 23)]\<rparr>)
       = Some (Inr (Exit_TabWrap,
           foreign_parent_world\<lparr>focus := 77, incoming := [],
             calls := [Call_IsDialogMessage 11 (tab_on 23), Call_TranslateMessage (tab_on 23),
                       Call_DispatchMessage (tab_on 23)]\<rparr>))"
  by (simp add: loop_eval foreign_parent_world_def)

text \<open>
  Claim C10. Whatever the loop has retrieved so far without returning, when message
  retrieval returns the quit condition (status 0) the loop leaves its \<^verbatim>\<open>while\<close>, calls
  \<^verbatim>\<open>PostQuitMessage(0)\<close> and returns: the quit request is posted again.
\<close>

theorem quit_is_reposted:
  assumes "TabPageMessageLoop page (w\<lparr>incoming := pre\<rparr>) = None"
  shows "\<exists>w'. TabPageMessageLoop page (w\<lparr>incoming := pre @ (0, m) # rest\<rparr>)
              = Some (Inr (Exit_Quit, w'))
          \<and> quit_posted w' = quit_posted w @ [0]
          \<and> incoming w' = rest \<and> posted w' = posted w \<and> focus w' = focus w"
proof -
  from loop_entry_prefix[OF assms(1)] obtain w1 where
    run: "\<And>r. TabPageMessageLoop page (w\<lparr>incoming := pre @ r\<rparr>) =
            TabPageMessageLoop_while page (first_tab_stop pre \<noteq> None) (first_tab_stop pre) r w1"
    and same: "same_outside_loop w w1" by blast
  show ?thesis using same unfolding run
    by (simp add: same_outside_loop_def Let_def PostQuitMessage_def)
qed

text \<open>
  Witness for C10: the loop of page 11 has retrieved one Tab key-down and is running; the
  quit condition then ends it with the quit request posted.
\<close>

theorem quit_is_reposted_witness:
  "TabPageMessageLoop 11 (example_world\<lparr>incoming := [(1, tab_on 21)]\<rparr>) = None
   \<and> (\<exists>w'. TabPageMessageLoop 11
              (example_world\<lparr>incoming := [(1, tab_on 21)] @ (0, hide_for 0) # []\<rparr>)
              = Some (Inr (Exit_Quit, w'))
          \<and> quit_posted w' = [0] \<and> incoming w' = [])"
proof -
  have a: "TabPageMessageLoop 11 (example_world\<lparr>incoming := [(1, tab_on 21)]\<rparr>) = None"
    by (simp add: loop_eval)
  have q: "quit_posted example_world = []" by (simp add: example_world_def)
  from quit_is_reposted[OF a, of "hide_for 0" "[]"] show ?thesis using a q by auto
qed

section \<open>Page placement\<close>

lemma c_div_2_nonneg: "0 \<le> a \<Longrightarrow> c_div a 2 = a div 2"
  by (cases "a = 0") (simp_all add: c_div_def)

lemma GetClientRect_frame:
  assumes "win_style w' = win_style w" "win_rect w' = win_rect w" "win_parent w' = win_parent w"
    "client_origin w' = client_origin w" "tab_item_rect w' = tab_item_rect w"
  shows "TabControl_GetClientRect w' h = TabControl_GetClientRect w h"
  using assms
  by (simp add: TabControl_GetClientRect_def GetWindowLong_STYLE_def GetWindowRect_def
      ScreenToClient_def GetParent_def TabCtrl_GetItemRect_def)

lemma userdata_frame:
  "win_userdata w' = win_userdata w \<Longrightarrow> GetWindowLong_USERDATA w' h = GetWindowLong_USERDATA w h"
  by (simp add: GetWindowLong_USERDATA_def)

text \<open>
  Claim C7. \<^verbatim>\<open>StretchTabPage\<close> places the page at the origin and with the width and height of
  the rectangle that \<^verbatim>\<open>TabControl_GetClientRect\<close> computes for the tab strip, whatever the
  client rectangle (the natural size) of the page is. The page is an existing window of the
  tab control: \<^verbatim>\<open>hTabPages[iPage]\<close> is inside the array and not the null handle.
\<close>

theorem stretch_fills_display_area:
  assumes "heap w (GetWindowLong_USERDATA w hTab1) = Some tc"
    and "page_at tc iPage = Inr page" and "page \<noteq> NULL"
  shows "\<exists>w'. StretchTabPage hTab1 iPage (w\<lparr>win_client := natural\<rparr>) = Inr (True, w')
          \<and> win_pos w' page =
              Some (rc_left (TabControl_GetClientRect w hTab1), rc_top (TabControl_GetClientRect w hTab1),
                    rc_right (TabControl_GetClientRect w hTab1), rc_bottom (TabControl_GetClientRect w hTab1))
          \<and> hd (z_order w') = page"
proof -
  define w0 where "w0 = w\<lparr>win_client := natural\<rparr>"
  define w1 where "w1 = w0\<lparr>m_lptc := GetWindowLong_USERDATA w0 hTab1\<rparr>"
  have u: "GetWindowLong_USERDATA w0 hTab1 = GetWindowLong_USERDATA w hTab1"
    by (rule userdata_frame) (simp add: w0_def)
  have d: "deref_m_lptc w1 = Inr tc"
    using assms(1) by (simp add: deref_m_lptc_def w1_def u) (simp add: w0_def)
  have r: "TabControl_GetClientRect w1 hTab1 = TabControl_GetClientRect w hTab1"
    by (rule GetClientRect_frame) (simp_all add: w1_def w0_def)
  have "StretchTabPage hTab1 iPage w0 =
      Inr (SetWindowPos page (rc_left (TabControl_GetClientRect w hTab1))
            (rc_top (TabControl_GetClientRect w hTab1)) (rc_right (TabControl_GetClientRect w hTab1))
            (rc_bottom (TabControl_GetClientRect w hTab1)) w1)"
    using d r assms(2) by (simp add: StretchTabPage_def Let_def w1_def[symmetric])
  then show ?thesis using assms(3) unfolding w0_def[symmetric]
    by (simp add: SetWindowPos_def)
qed

text \<open>
  Claim C6. \<^verbatim>\<open>CenterTabPage\<close> keeps the natural size of the page (the width and height of
  its client rectangle). On an axis where the page is strictly smaller than the target
  rectangle, the origin is the target's origin plus half the difference, and the margins
  before and after the page differ by at most one; on an axis where the page is as large
  as the target or larger, the origin is the target's origin. The offset is never negative.
\<close>

theorem center_keeps_size_and_centers:
  assumes "heap w (GetWindowLong_USERDATA w hTab1) = Some tc"
    and "page_at tc iPage = Inr page" and "page \<noteq> NULL"
    and "rect = TabControl_GetClientRect w hTab1"
    and "width = rc_right (GetClientRect w page) - rc_left (GetClientRect w page)"
    and "height = rc_bottom (GetClientRect w page) - rc_top (GetClientRect w page)"
  shows "\<exists>w' x y. CenterTabPage hTab1 iPage w = Inr (True, w')
          \<and> win_pos w' page = Some (x, y, width, height)
          \<and> (if width < rc_right rect
              then x = rc_left rect + (rc_right rect - width) div 2
                   \<and> (rc_left rect + rc_right rect - (x + width)) - (x - rc_left rect) \<in> {0, 1}
              else x = rc_left rect)
          \<and> (if height < rc_bottom rect
              then y = rc_top rect + (rc_bottom rect - height) div 2
                   \<and> (rc_top rect + rc_bottom rect - (y + height)) - (y - rc_top rect) \<in> {0, 1}
              else y = rc_top rect)
          \<and> rc_left rect \<le> x \<and> rc_top rect \<le> y"
proof -
  define w1 where "w1 = w\<lparr>m_lptc := GetWindowLong_USERDATA w hTab1\<rparr>"
  define x where "x = (if width < rc_right rect
                          then rc_left rect + c_div (rc_right rect - width) 2
                          else rc_left rect)"
  define y where "y = (if height < rc_bottom rect
                          then rc_top rect + c_div (rc_bottom rect - height) 2
                          else rc_top rect)"
  have d: "deref_m_lptc w1 = Inr tc"
    using assms(1) by (simp add: deref_m_lptc_def w1_def)
  have r: "TabControl_GetClientRect w1 hTab1 = rect"
    unfolding assms(4) by (rule GetClientRect_frame) (simp_all add: w1_def)
  have c: "GetClientRect w1 page = GetClientRect w page"
    by (simp add: GetClientRect_def w1_def)
  have "CenterTabPage hTab1 iPage w = Inr (SetWindowPos page x y width height w1)"
    using d r assms(2)
    by (simp add: CenterTabPage_def Let_def w1_def[symmetric] c x_def y_def assms(5,6))
  then have A: "CenterTabPage hTab1 iPage w
        = Inr (True, w1\<lparr>win_pos := (win_pos w1)(page := Some (x, y, width, height)),
                         z_order := page # removeAll page (z_order w1)\<rparr>)"
    using assms(3) by (simp add: SetWindowPos_def)
  have X: "if width < rc_right rect
              then x = rc_left rect + (rc_right rect - width) div 2
                   \<and> (rc_left rect + rc_right rect - (x + width)) - (x - rc_left rect) \<in> {0, 1}
              else x = rc_left rect"
  proof (cases "width < rc_right rect")
    case True
    then have "x = rc_left rect + (rc_right rect - width) div 2"
      by (simp add: x_def c_div_2_nonneg)
    moreover from this have
      "(rc_left rect + rc_right rect - (x + width)) - (x - rc_left rect) \<in> {0, 1}"
      by (simp; presburger)
    ultimately show ?thesis using True by simp
  next
    case False
    then show ?thesis by (simp add: x_def)
  qed
  have Y: "if height < rc_bottom rect
              then y = rc_top rect + (rc_bottom rect - height) div 2
                   \<and> (rc_top rect + rc_bottom rect - (y + height)) - (y - rc_top rect) \<in> {0, 1}
              else y = rc_top rect"
  proof (cases "height < rc_bottom rect")
    case True
    then have "y = rc_top rect + (rc_bottom rect - height) div 2"
      by (simp add: y_def c_div_2_nonneg)
    moreover from this have
      "(rc_top rect + rc_bottom rect - (y + height)) - (y - rc_top rect) \<in> {0, 1}"
      by (simp; presburger)
    ultimately show ?thesis using True by simp
  next
    case False
    then show ?thesis by (simp add: y_def)
  qed
  have L: "rc_left rect \<le> x" "rc_top rect \<le> y"
    by (simp_all add: x_def y_def c_div_2_nonneg)
  show ?thesis
    apply (rule exI[of _ "w1\<lparr>win_pos := (win_pos w1)(page := Some (x, y, width, height)),
                         z_order := page # removeAll page (z_order w1)\<rparr>"])
    apply (rule exI[of _ x], rule exI[of _ y])
    using A X Y L by simp
qed

lemmas geometry_eval = CenterTabPage_def StretchTabPage_def TabControl_GetClientRect_def Let_def
  deref_m_lptc_def GetWindowLong_USERDATA_def GetWindowLong_STYLE_def GetWindowRect_def
  GetClientRect_def ScreenToClient_def GetParent_def TabCtrl_GetItemRect_def SetWindowPos_def
  page_at_def array_at_def c_div_def example_world_def example_tabctrl_def winconst


lemma example_rect:
  "TabControl_GetClientRect example_world 100
     = \<lparr>rc_left = 14, rc_top = 46, rc_right = 388, rc_bottom = 264\<rparr>"
  by (simp add: geometry_eval)

text \<open>
  Witness for C7: page 12 of the example, with a natural size of 7 by 9, is stretched to the
  display area of the strip, 388 by 264 at (14, 46).
\<close>

theorem stretch_fills_display_area_witness:
  "heap example_world (GetWindowLong_USERDATA example_world 100) = Some example_tabctrl
   \<and> page_at example_tabctrl 1 = Inr 12 \<and> (12::nat) \<noteq> NULL
   \<and> (\<exists>w'. StretchTabPage 100 1
              (example_world\<lparr>win_client := (\<lambda>h. \<lparr>rc_left = 0, rc_top = 0, rc_right = 7, rc_bottom = 9\<rparr>)\<rparr>)
              = Inr (True, w')
          \<and> win_pos w' 12 = Some (14, 46, 388, 264))"
proof -
  have a: "heap example_world (GetWindowLong_USERDATA example_world 100) = Some example_tabctrl"
    by (simp add: GetWindowLong_USERDATA_def example_world_def)
  have b: "page_at example_tabctrl 1 = Inr 12"
    by (simp add: page_at_def array_at_def example_tabctrl_def)
  have c: "(12::nat) \<noteq> NULL" by simp
  from stretch_fills_display_area[OF a b c,
      of "\<lambda>h. \<lparr>rc_left = 0, rc_top = 0, rc_right = 7, rc_bottom = 9\<rparr>"]
  show ?thesis using a b by (auto simp: example_rect)
qed

text \<open>
  Witness for C6: page 11 of the example, 200 by 101, in the display area 388 by 264 at
  (14, 46), is placed at (108, 127).
\<close>

theorem center_keeps_size_and_centers_witness:
  "heap example_world (GetWindowLong_USERDATA example_world 100) = Some example_tabctrl
   \<and> page_at example_tabctrl 0 = Inr 11 \<and> (11::nat) \<noteq> NULL
   \<and> TabControl_GetClientRect example_world 100
       = \<lparr>rc_left = 14, rc_top = 46, rc_right = 388, rc_bottom = 264\<rparr>
   \<and> rc_right (GetClientRect example_world 11) - rc_left (GetClientRect example_world 11) = 200
   \<and> rc_bottom (GetClientRect example_world 11) - rc_top (GetClientRect example_world 11) = 101
   \<and> (\<exists>w'. CenterTabPage 100 0 example_world = Inr (True, w')
          \<and> win_pos w' 11 = Some (108, 127, 200, 101))"
proof -
  have a: "heap example_world (GetWindowLong_USERDATA example_world 100) = Some example_tabctrl"
    by (simp add: GetWindowLong_USERDATA_def example_world_def)
  have b: "page_at example_tabctrl 0 = Inr 11"
    by (simp add: page_at_def array_at_def example_tabctrl_def)
  have c: "(11::nat) \<noteq> NULL" by simp
  have w: "200 = rc_right (GetClientRect example_world 11) - rc_left (GetClientRect example_world 11)"
    by (simp add: GetClientRect_def example_world_def)
  have h: "101 = rc_bottom (GetClientRect example_world 11) - rc_top (GetClientRect example_world 11)"
    by (simp add: GetClientRect_def example_world_def)
  from center_keeps_size_and_centers[OF a b c example_rect[symmetric] w h]
  show ?thesis using a b w h example_rect by auto
qed

section \<open>Keyboard navigation and selection change\<close>

lemma sel_requests_append: "sel_requests (xs @ ys) = sel_requests xs @ sel_requests ys"
  by (induction xs rule: sel_requests.induct) simp_all

lemma keys_distinct:
  "VK_PRIOR \<noteq> VK_UP" "VK_PRIOR \<noteq> VK_NEXT" "VK_PRIOR \<noteq> VK_DOWN" "VK_PRIOR \<noteq> VK_LEFT"
  "VK_PRIOR \<noteq> VK_RIGHT" "VK_UP \<noteq> VK_NEXT" "VK_UP \<noteq> VK_DOWN" "VK_UP \<noteq> VK_LEFT" "VK_UP \<noteq> VK_RIGHT"
  "VK_NEXT \<noteq> VK_DOWN" "VK_NEXT \<noteq> VK_LEFT" "VK_NEXT \<noteq> VK_RIGHT" "VK_DOWN \<noteq> VK_LEFT"
  "VK_DOWN \<noteq> VK_RIGHT" "VK_LEFT \<noteq> VK_RIGHT"
  by (simp_all add: winconst)

lemma dlg_process_same_tab_state: "same_tab_state w (dlg_process page m w)"
  by (simp add: same_tab_state_def dlg_process_def IsDialogMessage_def DispatchMessage_def
      TranslateMessage_def sel_requests_append)

lemma same_tab_state_trans:
  "same_tab_state a b \<Longrightarrow> same_tab_state b c \<Longrightarrow> same_tab_state a c"
  by (simp add: same_tab_state_def)

lemma loop_same_tab_state:
  "TabPageMessageLoop_while page f h msgs w = Some (Inr (e, w')) \<Longrightarrow> same_tab_state w w'"
proof (induction msgs arbitrary: f h w)
  case Nil
  then show ?case by simp
next
  case (Cons a msgs)
  obtain s0 m0 where a: "a = (s0, m0)" by (cases a)
  show ?case
  proof (cases "loop_continues s0 m0 f h")
    case True
    have "same_tab_state (dlg_process page m0 w) w'"
      using Cons.prems unfolding a loop_Cons_continue[OF True]
      by (auto simp only: dlg_process_incoming loop_incoming_irrelevant dest: Cons.IH)
    then show ?thesis
      using dlg_process_same_tab_state same_tab_state_trans by blast
  next
    case False
    then show ?thesis using Cons.prems unfolding a
      by (auto simp: loop_continues_def is_hide_def is_tab_key_def Let_def same_tab_state_def
          PostQuitMessage_def SetFocus_def split: if_splits sum.splits)
  qed
qed

lemma enter_tab_page_same_tab_state:
  assumes "enter_tab_page tc cur w = Some (Inr (u, w'))"
  shows "same_tab_state w w'"
proof -
  from assms obtain page e where
    "TabPageMessageLoop page (FirstTabstop_SetFocus page (SetFocus page w)) = Some (Inr (e, w'))"
    by (auto simp: enter_tab_page_def split: sum.splits option.splits)
  then have "same_tab_state (FirstTabstop_SetFocus page (SetFocus page w)) w'"
    unfolding TabPageMessageLoop_def by (rule loop_same_tab_state)
  moreover have "same_tab_state w (FirstTabstop_SetFocus page (SetFocus page w))"
    by (simp add: same_tab_state_def FirstTabstop_SetFocus_def SetFocus_def Let_def
        SendMessage_NEXTDLGCTL_def PostMessage_def GetFocus_def sel_requests_append)
  ultimately show ?thesis by (rule same_tab_state_trans[rotated])
qed

text \<open>
  Claim C9. When the tab strip has at most one item, \<^verbatim>\<open>TabCtrl_OnKeyDown\<close> returns at once
  and leaves the world as it was: no selection or focus is requested, nothing is posted, and
  the message loop of the page is not entered (no message is retrieved).
\<close>

theorem single_tab_ignores_keys:
  assumes "TabCtrl_GetItemCount w (hwndFrom (hdr tk)) \<le> 1"
  shows "TabCtrl_OnKeyDown tk w = Some (Inr ((), w))"
  using assms by (simp add: TabCtrl_OnKeyDown_def Let_def)

lemmas key_eval = TabCtrl_OnKeyDown_def select_tab_def TabCtrl_SetCurSel_def TabCtrl_SetCurFocus_def
  TabCtrl_GetItemCount_def TabCtrl_GetCurSel_def GetWindowLong_STYLE_def deref_m_lptc_def Let_def
  key_down_def example_world_def example_tabctrl_def winconst

text \<open>
  Witness for C9: the right-arrow key on a strip with one item changes nothing.
\<close>

theorem single_tab_ignores_keys_witness:
  "TabCtrl_GetItemCount (example_world\<lparr>tab_items := (\<lambda>h. [Some ''One''])\<rparr>)
      (hwndFrom (hdr (key_down 100 VK_RIGHT))) \<le> 1
   \<and> TabCtrl_OnKeyDown (key_down 100 VK_RIGHT) (example_world\<lparr>tab_items := (\<lambda>h. [Some ''One''])\<rparr>)
       = Some (Inr ((), example_world\<lparr>tab_items := (\<lambda>h. [Some ''One''])\<rparr>))"
proof -
  have a: "TabCtrl_GetItemCount (example_world\<lparr>tab_items := (\<lambda>h. [Some ''One''])\<rparr>)
      (hwndFrom (hdr (key_down 100 VK_RIGHT))) \<le> 1"
    by (simp add: TabCtrl_GetItemCount_def)
  from single_tab_ignores_keys[OF a] a show ?thesis by simp
qed

lemma select_tab_requests:
  "sel_requests (calls (TabCtrl_SetCurFocus h j (TabCtrl_SetCurSel h i w)))
     = sel_requests (calls w) @ [(h, i)]"
  by (simp add: TabCtrl_SetCurSel_def TabCtrl_SetCurFocus_def sel_requests_append)

text \<open>
  Claim C3, as amended. On a strip with more than one item that reports a current selection
  \<open>cur \<ge> 0\<close>, in both orientations: a previous-direction key at selection 0 changes
  nothing; otherwise it requests the selection \<open>cur - 1\<close>, which is not negative; a
  next-direction key requests \<open>cur + 1\<close> whatever the item count is; any other key
  requests no selection.
\<close>

theorem selection_requests_of_keys:
  assumes "1 < TabCtrl_GetItemCount w (hwndFrom (hdr tk))"
    and "0 \<le> TabCtrl_GetCurSel w (hwndFrom (hdr tk))"
    and "deref_m_lptc w = Inr tc"
    and "h = hwndFrom (hdr tk)" and "cur = TabCtrl_GetCurSel w h"
    and "vertical = strip_is_vertical w tc"
  shows "if is_prev_key vertical (wVKey tk) then
            (if cur = 0 then TabCtrl_OnKeyDown tk w = Some (Inr ((), w))
             else \<exists>w'. TabCtrl_OnKeyDown tk w = Some (Inr ((), w'))
                    \<and> sel_requests (calls w') = sel_requests (calls w) @ [(h, cur - 1)]
                    \<and> 0 \<le> cur - 1)
          else if is_next_key vertical (wVKey tk) then
            (\<exists>w'. TabCtrl_OnKeyDown tk w = Some (Inr ((), w'))
                    \<and> sel_requests (calls w') = sel_requests (calls w) @ [(h, cur + 1)]
                    \<and> 0 \<le> cur + 1)
          else (\<forall>w'. TabCtrl_OnKeyDown tk w = Some (Inr ((), w'))
                  \<longrightarrow> sel_requests (calls w') = sel_requests (calls w))"
proof -
  have nonneg: "0 \<le> cur" using assms(2,4,5) by simp
  have body: "TabCtrl_OnKeyDown tk w =
     (if vertical then
         (if wVKey tk = VK_PRIOR then
            (if 0 = cur then Some (Inr ((), w)) else select_tab h (cur - 1) (cur - 1) w)
          else if wVKey tk = VK_UP then
            (if 0 = cur then Some (Inr ((), w)) else select_tab h (cur - 1) cur w)
          else if wVKey tk = VK_NEXT then select_tab h (cur + 1) (cur + 1) w
          else if wVKey tk = VK_DOWN then select_tab h (cur + 1) cur w
          else if wVKey tk = VK_LEFT \<or> wVKey tk = VK_RIGHT then enter_tab_page tc cur w
          else Some (Inr ((), w)))
      else
         (if wVKey tk = VK_NEXT then
            (if 0 = cur then Some (Inr ((), w)) else select_tab h (cur - 1) (cur - 1) w)
          else if wVKey tk = VK_LEFT then
            (if 0 = cur then Some (Inr ((), w)) else select_tab h (cur - 1) cur w)
          else if wVKey tk = VK_PRIOR then select_tab h (cur + 1) (cur + 1) w
          else if wVKey tk = VK_RIGHT then select_tab h (cur + 1) cur w
          else if wVKey tk = VK_UP \<or> wVKey tk = VK_DOWN then enter_tab_page tc cur w
          else Some (Inr ((), w))))"
    using assms(1,3) unfolding assms(4,5,6) strip_is_vertical_def
    by (simp add: TabCtrl_OnKeyDown_def Let_def)
  have enter: "sel_requests (calls w') = sel_requests (calls w)"
    if "enter_tab_page tc cur w = Some (Inr ((), w'))" for w'
    using enter_tab_page_same_tab_state[OF that] by (simp add: same_tab_state_def)
  consider (prior) "wVKey tk = VK_PRIOR" | (up) "wVKey tk = VK_UP" | (nxt) "wVKey tk = VK_NEXT"
    | (down) "wVKey tk = VK_DOWN" | (left) "wVKey tk = VK_LEFT" | (right) "wVKey tk = VK_RIGHT"
    | (other) "wVKey tk \<notin> {VK_PRIOR, VK_UP, VK_NEXT, VK_DOWN, VK_LEFT, VK_RIGHT}"
    by blast
  then show ?thesis
  proof cases
    case prior
    then show ?thesis using nonneg
      by (cases vertical)
        (simp_all add: body is_prev_key_def is_next_key_def keys_distinct select_tab_def
          select_tab_requests)
  next
    case up
    then show ?thesis using nonneg enter
      by (cases vertical)
        (simp_all add: body is_prev_key_def is_next_key_def keys_distinct select_tab_def
          select_tab_requests)
  next
    case nxt
    then show ?thesis using nonneg
      by (cases vertical)
        (simp_all add: body is_prev_key_def is_next_key_def keys_distinct select_tab_def
          select_tab_requests)
  next
    case down
    then show ?thesis using nonneg enter
      by (cases vertical)
        (simp_all add: body is_prev_key_def is_next_key_def keys_distinct select_tab_def
          select_tab_requests)
  next
    case left
    then show ?thesis using nonneg enter
      by (cases vertical)
        (simp_all add: body is_prev_key_def is_next_key_def keys_distinct select_tab_def
          select_tab_requests)
  next
    case right
    then show ?thesis using nonneg enter
      by (cases vertical)
        (simp_all add: body is_prev_key_def is_next_key_def keys_distinct select_tab_def
          select_tab_requests)
  next
    case other
    then show ?thesis
      by (cases vertical) (simp_all add: body is_prev_key_def is_next_key_def)
  qed
qed

text \<open>
  Counterexample to C3 as stated (the selection index set is never negative): a vertical
  strip with three items reports no selection (\<^verbatim>\<open>TabCtrl_GetCurSel\<close> returns -1); the
  page-up key passes the test against 0 and requests the selection -2.
\<close>

theorem previous_key_without_selection_counterexample:
  "TabCtrl_GetCurSel unselected_world 100 = - 1
   \<and> TabCtrl_OnKeyDown (key_down 100 VK_PRIOR) unselected_world
       = Some (Inr ((), TabCtrl_SetCurFocus 100 (- 2) (TabCtrl_SetCurSel 100 (- 2) unselected_world)))
   \<and> sel_requests (calls (TabCtrl_SetCurFocus 100 (- 2) (TabCtrl_SetCurSel 100 (- 2) unselected_world)))
       = [(100, - 2)]"
  by (simp add: key_eval unselected_world_def)

text \<open>
  Witness for C3: on the horizontal example strip with the second tab selected, the left
  arrow requests tab 0 and the right arrow requests tab 2; with the first tab selected the
  left arrow changes nothing.
\<close>

theorem selection_requests_of_keys_witness:
  "1 < TabCtrl_GetItemCount second_selected_world (hwndFrom (hdr (key_down 100 VK_LEFT)))
   \<and> 0 \<le> TabCtrl_GetCurSel second_selected_world (hwndFrom (hdr (key_down 100 VK_LEFT)))
   \<and> deref_m_lptc second_selected_world = Inr example_tabctrl
   \<and> is_prev_key (strip_is_vertical second_selected_world example_tabctrl) (wVKey (key_down 100 VK_LEFT))
   \<and> (\<exists>w'. TabCtrl_OnKeyDown (key_down 100 VK_LEFT) second_selected_world = Some (Inr ((), w'))
          \<and> sel_requests (calls w') = [(100, 0)])
   \<and> is_next_key (strip_is_vertical second_selected_world example_tabctrl) (wVKey (key_down 100 VK_RIGHT))
   \<and> (\<exists>w'. TabCtrl_OnKeyDown (key_down 100 VK_RIGHT) second_selected_world = Some (Inr ((), w'))
          \<and> sel_requests (calls w') = [(100, 2)])
   \<and> TabCtrl_OnKeyDown (key_down 100 VK_LEFT) example_world = Some (Inr ((), example_world))"
proof -
  have a: "1 < TabCtrl_GetItemCount second_selected_world (hwndFrom (hdr (key_down 100 k)))"
    "1 < TabCtrl_GetItemCount example_world (hwndFrom (hdr (key_down 100 k)))" for k
    by (simp_all add: TabCtrl_GetItemCount_def key_down_def second_selected_world_def example_world_def)
  have b: "0 \<le> TabCtrl_GetCurSel second_selected_world (hwndFrom (hdr (key_down 100 k)))"
    "0 \<le> TabCtrl_GetCurSel example_world (hwndFrom (hdr (key_down 100 k)))" for k
    by (simp_all add: TabCtrl_GetCurSel_def key_down_def second_selected_world_def example_world_def)
  have d: "deref_m_lptc second_selected_world = Inr example_tabctrl"
    "deref_m_lptc example_world = Inr example_tabctrl"
    by (simp_all add: deref_m_lptc_def second_selected_world_def example_world_def)
  have v: "\<not> strip_is_vertical second_selected_world example_tabctrl"
    "\<not> strip_is_vertical example_world example_tabctrl"
    by (simp_all add: strip_is_vertical_def GetWindowLong_STYLE_def second_selected_world_def
        example_world_def)
  have k: "is_prev_key False (wVKey (key_down 100 VK_LEFT))"
    "is_next_key False (wVKey (key_down 100 VK_RIGHT))"
    "\<not> is_prev_key False (wVKey (key_down 100 VK_RIGHT))"
    by (simp_all add: is_prev_key_def is_next_key_def key_down_def winconst)
  have c: "TabCtrl_GetCurSel second_selected_world (hwndFrom (hdr (key_down 100 k))) = 1"
    "TabCtrl_GetCurSel example_world (hwndFrom (hdr (key_down 100 k))) = 0"
    "calls second_selected_world = []" "hwndFrom (hdr (key_down 100 k)) = 100" for k
    by (simp_all add: TabCtrl_GetCurSel_def key_down_def second_selected_world_def example_world_def)
  from selection_requests_of_keys[OF a(1)[of VK_LEFT] b(1) d(1) refl refl refl]
    selection_requests_of_keys[OF a(1)[of VK_RIGHT] b(1) d(1) refl refl refl]
    selection_requests_of_keys[OF a(2)[of VK_LEFT] b(2) d(2) refl refl refl]
  show ?thesis using a b d v k c by simp
qed

text \<open>
  The message that \<^verbatim>\<open>TabCtrl_OnSelChanged\<close> posts to the page it hides is a hide message in
  the sense of the message loop.
\<close>

lemma selection_change_posts_hide:
  assumes "deref_m_lptc w = Inr tc"
    and "page_at tc (TabCtrl_GetCurSel w (hTab tc)) = Inr page"
  shows "\<exists>w1. TabCtrl_OnSelChanged w = Inr (True, w1)
           \<and> posted w1 = posted w @ [hide_for (hVisiblePage tc)]"
    and "is_hide (hide_for h)"
  using assms
  by (simp_all add: TabCtrl_OnSelChanged_def Let_def store_m_lptc_def ShowWindow_def
      PostMessage_def hide_for_def is_hide_def)

text \<open>
  Claim C5. In a state where every page window exists, no page other than the recorded
  visible page is visible, and the strip's selection \<open>i\<close> is an index of the page array:
  \<^verbatim>\<open>TabCtrl_OnSelChanged\<close> run twice (the selection is the same at both runs) leaves the
  page at index \<open>i\<close> as the only visible page and as the recorded visible page, and the
  page that was visible before hidden; the second run changes neither the visibility nor
  the structure.
\<close>

theorem selection_change_twice:
  assumes "deref_m_lptc w = Inr tc"
    and "page_at tc (TabCtrl_GetCurSel w (hTab tc)) = Inr page"
    and "NULL \<notin> set (hTabPages tc)"
    and "\<forall>p \<in> set (hTabPages tc). win_visible w p \<longrightarrow> p = hVisiblePage tc"
  shows "\<exists>w1 w2 tc2. TabCtrl_OnSelChanged w = Inr (True, w1)
          \<and> TabCtrl_GetCurSel w1 (hTab tc) = TabCtrl_GetCurSel w (hTab tc)
          \<and> TabCtrl_OnSelChanged w1 = Inr (True, w2)
          \<and> deref_m_lptc w2 = Inr tc2 \<and> hVisiblePage tc2 = page
          \<and> hTabPages tc2 = hTabPages tc
          \<and> (\<forall>p \<in> set (hTabPages tc). win_visible w2 p \<longleftrightarrow> p = page)
          \<and> (hVisiblePage tc \<noteq> page \<and> hVisiblePage tc \<noteq> NULL \<longrightarrow> \<not> win_visible w2 (hVisiblePage tc))
          \<and> win_visible w2 = win_visible w1 \<and> heap w2 = heap w1"
proof -
  define old where "old = hVisiblePage tc"
  define tc1 where "tc1 = tc\<lparr>hVisiblePage := page\<rparr>"
  define w1 where "w1 = store_m_lptc tc1
      (ShowWindow page TRUE (PostMessage old WM_SHOWWINDOW 0 0 (ShowWindow old FALSE w)))"
  define w2 where "w2 = store_m_lptc (tc1\<lparr>hVisiblePage := page\<rparr>)
      (ShowWindow page TRUE (PostMessage page WM_SHOWWINDOW 0 0 (ShowWindow page FALSE w1)))"
  have "page \<in> set (hTabPages tc)"
    using assms(2) by (auto simp: page_at_def array_at_def split: if_splits)
  with assms(3) have pg: "page \<noteq> NULL" by metis
  have 1: "TabCtrl_OnSelChanged w = Inr (True, w1)"
    using assms(1,2) by (simp add: TabCtrl_OnSelChanged_def Let_def w1_def old_def tc1_def)
  have m1: "m_lptc w1 = m_lptc w" "tab_cursel w1 = tab_cursel w"
    by (simp_all add: w1_def store_m_lptc_def ShowWindow_def PostMessage_def)
  have d1: "deref_m_lptc w1 = Inr tc1"
    by (simp add: w1_def deref_m_lptc_def store_m_lptc_def ShowWindow_def PostMessage_def)
  have s1: "TabCtrl_GetCurSel w1 (hTab tc1) = TabCtrl_GetCurSel w (hTab tc)"
    by (simp add: TabCtrl_GetCurSel_def m1 tc1_def)
  have p1: "page_at tc1 (TabCtrl_GetCurSel w (hTab tc)) = Inr page"
    using assms(2) by (simp add: page_at_def tc1_def)
  have 2: "TabCtrl_OnSelChanged w1 = Inr (True, w2)"
    using d1 p1 by (simp add: TabCtrl_OnSelChanged_def Let_def s1 w2_def) (simp add: tc1_def)
  have v1: "win_visible w1 = (if old = NULL then win_visible w else (win_visible w)(old := False))(page := True)"
    using pg
    by (simp add: w1_def store_m_lptc_def ShowWindow_def PostMessage_def winconst)
  have v2: "win_visible w2 = win_visible w1"
    using pg by (simp add: w2_def store_m_lptc_def ShowWindow_def PostMessage_def winconst v1)
  have h2: "heap w2 = heap w1"
    by (simp add: w2_def w1_def store_m_lptc_def ShowWindow_def PostMessage_def tc1_def)
  have d2: "deref_m_lptc w2 = Inr tc1"
    using d1 by (simp add: deref_m_lptc_def h2) (simp add: w2_def store_m_lptc_def ShowWindow_def PostMessage_def)
  have only: "\<forall>p \<in> set (hTabPages tc). win_visible w2 p \<longleftrightarrow> p = page"
    using assms(3,4) unfolding v2 v1 old_def by auto
  have gone: "hVisiblePage tc \<noteq> page \<and> hVisiblePage tc \<noteq> NULL \<longrightarrow> \<not> win_visible w2 (hVisiblePage tc)"
    unfolding v2 v1 old_def by simp
  show ?thesis
    apply (rule exI[of _ w1], rule exI[of _ w2], rule exI[of _ tc1])
    using 1 2 d2 only gone v2 h2 s1 by (simp add: tc1_def)
qed

lemma OnKeyDown_forms:
  "TabCtrl_OnKeyDown tk w = Some (Inr ((), w))
   \<or> (\<exists>i j. TabCtrl_OnKeyDown tk w = select_tab (hwndFrom (hdr tk)) i j w)
   \<or> (\<exists>tc i. TabCtrl_OnKeyDown tk w = enter_tab_page tc i w)
   \<or> (\<exists>f. TabCtrl_OnKeyDown tk w = Some (Inl f))"
  unfolding TabCtrl_OnKeyDown_def Let_def
  by (cases "deref_m_lptc w") (simp_all, blast+)

lemma OnKeyDown_frame:
  assumes "TabCtrl_OnKeyDown tk w = Some (Inr (u, w'))"
  shows "heap w' = heap w \<and> m_lptc w' = m_lptc w \<and> win_visible w' = win_visible w"
  using OnKeyDown_forms[of tk w]
proof (elim disjE exE)
  assume "TabCtrl_OnKeyDown tk w = Some (Inr ((), w))"
  with assms show ?thesis by simp
next
  fix i j assume "TabCtrl_OnKeyDown tk w = select_tab (hwndFrom (hdr tk)) i j w"
  with assms show ?thesis
    by (auto simp: select_tab_def TabCtrl_SetCurSel_def TabCtrl_SetCurFocus_def)
next
  fix tc i assume "TabCtrl_OnKeyDown tk w = enter_tab_page tc i w"
  with assms have "enter_tab_page tc i w = Some (Inr (u, w'))" by simp
  from enter_tab_page_same_tab_state[OF this] show ?thesis by (simp add: same_tab_state_def)
next
  fix f assume "TabCtrl_OnKeyDown tk w = Some (Inl f)"
  with assms show ?thesis by simp
qed

lemma key_ignored_returns:
  assumes "key_ignored tk w"
  shows "TabCtrl_OnKeyDown tk w = Some (Inr ((), w))"
proof (cases "TabCtrl_GetItemCount w (hwndFrom (hdr tk)) \<le> 1")
  case True
  then show ?thesis by (simp add: TabCtrl_OnKeyDown_def Let_def)
next
  case False
  with assms obtain tc where d: "deref_m_lptc w = Inr tc"
    and k: "(is_prev_key (strip_is_vertical w tc) (wVKey tk)
                 \<and> TabCtrl_GetCurSel w (hwndFrom (hdr tk)) = 0)
              \<or> \<not> (is_prev_key (strip_is_vertical w tc) (wVKey tk)
                     \<or> is_next_key (strip_is_vertical w tc) (wVKey tk)
                     \<or> is_enter_key (strip_is_vertical w tc) (wVKey tk))"
    by (auto simp: key_ignored_def split: sum.splits)
  show ?thesis
  proof (cases "strip_is_vertical w tc")
    case True
    then have v: "GetWindowLong_STYLE w (hTab tc) AND TCS_VERTICAL \<noteq> 0"
      by (simp add: strip_is_vertical_def)
    from k True show ?thesis
      using False d v
      by (auto simp: TabCtrl_OnKeyDown_def Let_def is_prev_key_def is_next_key_def
          is_enter_key_def keys_distinct)
  next
    case F: False
    then have v: "GetWindowLong_STYLE w (hTab tc) AND TCS_VERTICAL = 0"
      by (simp add: strip_is_vertical_def)
    from k F show ?thesis
      using False d v
      by (auto simp: TabCtrl_OnKeyDown_def Let_def is_prev_key_def is_next_key_def
          is_enter_key_def keys_distinct)
  qed
qed

text \<open>
  Claim C4. \<^verbatim>\<open>Notify\<close> first points \<^verbatim>\<open>m_lptc\<close> at the structure of the sending strip
  (world \<open>w0\<close>). For a key-down notification, when \<^verbatim>\<open>TabCtrl_OnKeyDown\<close> returns (in world
  \<open>w1\<close>), \<^verbatim>\<open>Notify\<close> runs \<^verbatim>\<open>TabCtrl_OnSelChanged\<close> there: the recorded visible page is
  hidden and posted a hide message, the page at the strip's current selection is shown and
  recorded, and the result is TRUE. This also happens when the key was ignored (an unknown
  key, at most one item, a previous-direction key at selection 0), in which case the handler
  changed nothing. A notification that is neither key-down nor selection-changed returns
  FALSE.
\<close>

theorem notify_key_down_falls_through:
  assumes "w0 = w\<lparr>m_lptc := GetWindowLong_USERDATA w (hwndFrom (hdr pnm))\<rparr>"
  shows "(code (hdr pnm) = TCN_KEYDOWN \<longrightarrow>
           (\<forall>w1 tc page.
              TabCtrl_OnKeyDown pnm w0 = Some (Inr ((), w1)) \<and> deref_m_lptc w0 = Inr tc
                \<and> page_at tc (TabCtrl_GetCurSel w1 (hTab tc)) = Inr page \<longrightarrow>
              Notify pnm w = Some (Inr (True,
                store_m_lptc (tc\<lparr>hVisiblePage := page\<rparr>)
                  (ShowWindow page TRUE
                    (PostMessage (hVisiblePage tc) WM_SHOWWINDOW 0 0
                      (ShowWindow (hVisiblePage tc) FALSE w1))))))
           \<and> (\<forall>tc page.
              key_ignored pnm w0 \<and> deref_m_lptc w0 = Inr tc
                \<and> page_at tc (TabCtrl_GetCurSel w0 (hTab tc)) = Inr page \<longrightarrow>
              TabCtrl_OnKeyDown pnm w0 = Some (Inr ((), w0))
              \<and> Notify pnm w = Some (Inr (True,
                store_m_lptc (tc\<lparr>hVisiblePage := page\<rparr>)
                  (ShowWindow page TRUE
                    (PostMessage (hVisiblePage tc) WM_SHOWWINDOW 0 0
                      (ShowWindow (hVisiblePage tc) FALSE w0)))))))
       \<and> (code (hdr pnm) \<noteq> TCN_KEYDOWN \<and> code (hdr pnm) \<noteq> TCN_SELCHANGE \<longrightarrow>
            Notify pnm w = Some (Inr (False, w0)))"
proof -
  have A: "Notify pnm w = Some (Inr (True,
                store_m_lptc (tc\<lparr>hVisiblePage := page\<rparr>)
                  (ShowWindow page TRUE
                    (PostMessage (hVisiblePage tc) WM_SHOWWINDOW 0 0
                      (ShowWindow (hVisiblePage tc) FALSE w1)))))"
    if c: "code (hdr pnm) = TCN_KEYDOWN" and k: "TabCtrl_OnKeyDown pnm w0 = Some (Inr ((), w1))"
      and d: "deref_m_lptc w0 = Inr tc"
      and p: "page_at tc (TabCtrl_GetCurSel w1 (hTab tc)) = Inr page" for w1 tc page
  proof -
    from OnKeyDown_frame[OF k] d have d1: "deref_m_lptc w1 = Inr tc"
      by (simp add: deref_m_lptc_def)
    have "TabCtrl_OnSelChanged w1 = Inr (True,
                store_m_lptc (tc\<lparr>hVisiblePage := page\<rparr>)
                  (ShowWindow page TRUE
                    (PostMessage (hVisiblePage tc) WM_SHOWWINDOW 0 0
                      (ShowWindow (hVisiblePage tc) FALSE w1))))"
      using d1 p by (simp add: TabCtrl_OnSelChanged_def Let_def)
    then show ?thesis using c k unfolding assms
      by (simp add: Notify_def Let_def)
  qed
  have B: "Notify pnm w = Some (Inr (False, w0))"
    if "code (hdr pnm) \<noteq> TCN_KEYDOWN" "code (hdr pnm) \<noteq> TCN_SELCHANGE"
    using that unfolding assms by (simp add: Notify_def Let_def)
  have C: "TabCtrl_OnKeyDown pnm w0 = Some (Inr ((), w0))
              \<and> Notify pnm w = Some (Inr (True,
                store_m_lptc (tc\<lparr>hVisiblePage := page\<rparr>)
                  (ShowWindow page TRUE
                    (PostMessage (hVisiblePage tc) WM_SHOWWINDOW 0 0
                      (ShowWindow (hVisiblePage tc) FALSE w0)))))"
    if "code (hdr pnm) = TCN_KEYDOWN" "key_ignored pnm w0" "deref_m_lptc w0 = Inr tc"
      "page_at tc (TabCtrl_GetCurSel w0 (hTab tc)) = Inr page" for tc page
    using A[OF that(1) key_ignored_returns[OF that(2)] that(3,4)] key_ignored_returns[OF that(2)]
    by simp
  from A B C show ?thesis by blast
qed

lemmas notify_eval = Notify_def TabCtrl_OnSelChanged_def ShowWindow_def PostMessage_def
  store_m_lptc_def page_at_def array_at_def GetWindowLong_USERDATA_def other_notification_def
  second_selected_world_def key_eval

text \<open>
  Witness for C4: the left arrow at selection 0 of the example strip is ignored by the
  handler; \<^verbatim>\<open>Notify\<close> still returns TRUE and posts the hide message to page 11, which stays
  visible. A notification with another code returns FALSE.
\<close>

theorem notify_key_down_falls_through_witness:
  "code (hdr (key_down 100 VK_LEFT)) = TCN_KEYDOWN
   \<and> key_ignored (key_down 100 VK_LEFT) example_world
   \<and> deref_m_lptc example_world = Inr example_tabctrl
   \<and> page_at example_tabctrl (TabCtrl_GetCurSel example_world (hTab example_tabctrl)) = Inr 11
   \<and> TabCtrl_OnKeyDown (key_down 100 VK_LEFT) example_world = Some (Inr ((), example_world))
   \<and> Notify (key_down 100 VK_LEFT) example_world
       = Some (Inr (True, example_world\<lparr>posted := [hide_for 11]\<rparr>))
   \<and> code (hdr other_notification) \<noteq> TCN_KEYDOWN
   \<and> code (hdr other_notification) \<noteq> TCN_SELCHANGE
   \<and> Notify other_notification example_world = Some (Inr (False, example_world))"
proof -
  have w0: "example_world
      = example_world\<lparr>m_lptc := GetWindowLong_USERDATA example_world (hwndFrom (hdr (key_down 100 k)))\<rparr>"
    "example_world
      = example_world\<lparr>m_lptc := GetWindowLong_USERDATA example_world (hwndFrom (hdr other_notification))\<rparr>"
    for k
    by (simp_all add: GetWindowLong_USERDATA_def key_down_def other_notification_def example_world_def)
  have c: "code (hdr (key_down 100 VK_LEFT)) = TCN_KEYDOWN" by (simp add: key_down_def)
  have d: "deref_m_lptc example_world = Inr example_tabctrl"
    by (simp add: deref_m_lptc_def example_world_def)
  have v: "\<not> strip_is_vertical example_world example_tabctrl"
    by (simp add: strip_is_vertical_def GetWindowLong_STYLE_def example_world_def)
  have z: "TabCtrl_GetCurSel example_world 100 = 0"
    by (simp add: TabCtrl_GetCurSel_def example_world_def)
  have i: "key_ignored (key_down 100 VK_LEFT) example_world"
    by (simp add: key_ignored_def d v z is_prev_key_def key_down_def)
  have p: "page_at example_tabctrl (TabCtrl_GetCurSel example_world (hTab example_tabctrl)) = Inr 11"
    by (simp add: page_at_def array_at_def TabCtrl_GetCurSel_def example_world_def example_tabctrl_def)
  have o: "code (hdr other_notification) \<noteq> TCN_KEYDOWN"
    "code (hdr other_notification) \<noteq> TCN_SELCHANGE"
    by (simp_all add: other_notification_def winconst)
  have e: "store_m_lptc (example_tabctrl\<lparr>hVisiblePage := 11\<rparr>)
             (ShowWindow 11 TRUE
               (PostMessage (hVisiblePage example_tabctrl) WM_SHOWWINDOW 0 0
                 (ShowWindow (hVisiblePage example_tabctrl) FALSE example_world)))
           = example_world\<lparr>posted := [hide_for 11]\<rparr>"
    by (simp add: store_m_lptc_def ShowWindow_def PostMessage_def hide_for_def example_world_def
        example_tabctrl_def winconst fun_eq_iff)
  from notify_key_down_falls_through[OF w0(1)[of VK_LEFT]]
    notify_key_down_falls_through[OF w0(2)]
  show ?thesis using c d i p o e by simp
qed

text \<open>
  Witness for C5: with page 11 visible and the second tab selected, two runs leave page 12
  visible and pages 11 and 13 hidden.
\<close>

theorem selection_change_twice_witness:
  "deref_m_lptc second_selected_world = Inr example_tabctrl
   \<and> page_at example_tabctrl (TabCtrl_GetCurSel second_selected_world (hTab example_tabctrl)) = Inr 12
   \<and> NULL \<notin> set (hTabPages example_tabctrl)
   \<and> hTabPages example_tabctrl = [11, 12, 13] \<and> hVisiblePage example_tabctrl = 11
   \<and> \<not> win_visible second_selected_world 12 \<and> \<not> win_visible second_selected_world 13
   \<and> (\<exists>w1 w2 tc2. TabCtrl_OnSelChanged second_selected_world = Inr (True, w1)
          \<and> TabCtrl_OnSelChanged w1 = Inr (True, w2)
          \<and> deref_m_lptc w2 = Inr tc2 \<and> hVisiblePage tc2 = 12
          \<and> win_visible w2 12 \<and> \<not> win_visible w2 11 \<and> \<not> win_visible w2 13)"
proof -
  have d: "deref_m_lptc second_selected_world = Inr example_tabctrl"
    by (simp add: deref_m_lptc_def second_selected_world_def example_world_def)
  have p: "page_at example_tabctrl (TabCtrl_GetCurSel second_selected_world (hTab example_tabctrl)) = Inr 12"
    by (simp add: page_at_def array_at_def TabCtrl_GetCurSel_def second_selected_world_def
        example_tabctrl_def)
  have n: "NULL \<notin> set (hTabPages example_tabctrl)" by (simp add: example_tabctrl_def)
  have v: "\<forall>p \<in> set (hTabPages example_tabctrl).
         win_visible second_selected_world p \<longrightarrow> p = hVisiblePage example_tabctrl"
    by (simp add: example_tabctrl_def second_selected_world_def example_world_def)
  have s: "set (hTabPages example_tabctrl) = {11, 12, 13}" "hVisiblePage example_tabctrl = 11"
    by (auto simp: example_tabctrl_def)
  have f: "hTabPages example_tabctrl = [11, 12, 13]"
    "\<not> win_visible second_selected_world 12" "\<not> win_visible second_selected_world 13"
    by (simp_all add: example_tabctrl_def second_selected_world_def example_world_def)
  from selection_change_twice[OF d p n v]
  show ?thesis using d p n f unfolding s by fastforce
qed

section \<open>Construction\<close>

lemma GetClientRect_frame_at:
  assumes "win_style w' = win_style w" "win_rect w' = win_rect w"
    "win_parent w' h = win_parent w h"
    "client_origin w' = client_origin w" "tab_item_rect w' = tab_item_rect w"
  shows "TabControl_GetClientRect w' h = TabControl_GetClientRect w h"
  using assms
  by (simp add: TabControl_GetClientRect_def GetWindowLong_STYLE_def GetWindowRect_def
      ScreenToClient_def GetParent_def TabCtrl_GetItemRect_def)

lemma New_TabControl_for_append:
  "New_TabControl_for hTab1 dlgNames (xs @ ys) w =
     (case New_TabControl_for hTab1 dlgNames xs w of
        Inl f \<Rightarrow> Inl f
      | Inr w1 \<Rightarrow> New_TabControl_for hTab1 dlgNames ys w1)"
  by (induction xs arbitrary: w) (simp_all split: sum.splits)

lemma place_page:
  assumes "hTab1 \<noteq> NULL" and "heap w (win_userdata w hTab1) = Some tc"
    and "page_at tc i = Inr page" and "page \<noteq> NULL" and "blStretchTabs tc = stretch"
  shows "(if stretch then StretchTabPage hTab1 i w else CenterTabPage hTab1 i w)
      = Inr (True, w\<lparr>m_lptc := win_userdata w hTab1,
                   win_pos := (win_pos w)(page := Some (placement stretch (TabControl_GetClientRect w hTab1) (win_client w page))),
                   z_order := page # removeAll page (z_order w)\<rparr>)"
proof -
  define w1 where "w1 = w\<lparr>m_lptc := GetWindowLong_USERDATA w hTab1\<rparr>"
  have u: "GetWindowLong_USERDATA w hTab1 = win_userdata w hTab1"
    using assms(1) by (simp add: GetWindowLong_USERDATA_def)
  have d: "deref_m_lptc w1 = Inr tc"
    using assms(2) by (simp add: deref_m_lptc_def w1_def u)
  have r: "TabControl_GetClientRect w1 hTab1 = TabControl_GetClientRect w hTab1"
    by (rule GetClientRect_frame_at) (simp_all add: w1_def)
  have c: "GetClientRect w1 page = win_client w page"
    by (simp add: GetClientRect_def w1_def)
  show ?thesis
  proof (cases stretch)
    case True
    then show ?thesis using d r assms(3,4)
      by (simp add: StretchTabPage_def Let_def w1_def[symmetric] SetWindowPos_def placement_def)
        (simp add: w1_def u)
  next
    case False
    then show ?thesis using d r c assms(3,4)
      by (simp add: CenterTabPage_def Let_def w1_def[symmetric] SetWindowPos_def placement_def
          c_div_2_nonneg)
        (simp add: w1_def u)
  qed
qed

lemma body_step:
  assumes "hTab1 \<noteq> NULL" "h \<noteq> NULL" "h \<noteq> hTab1"
    and "m_lptc wk = lptc" "win_userdata wk hTab1 = lptc" "heap wk lptc = Some tck"
    and "hTab tck = hTab1" "blStretchTabs tck = stretch"
    and "array_at (tabNames tck) (int k) = Inr text"
    and "array_at dlgNames (int k) = Inr tmpl"
    and "k < length (hTabPages tck)"
    and "dlg_supply wk = h # rest"
  shows "\<exists>wk'. New_TabControl_body hTab1 dlgNames (int k) wk = Inr wk'
     \<and> m_lptc wk' = lptc \<and> win_userdata wk' = (win_userdata wk)(h := hTab1)
     \<and> heap wk' = (heap wk)(lptc \<mapsto> tck\<lparr>hTabPages := (hTabPages tck)[k := h]\<rparr>)
     \<and> dlg_supply wk' = rest
     \<and> tab_items wk' = (tab_items wk)
          (hTab1 := take k (tab_items wk hTab1) @ [text] @ drop k (tab_items wk hTab1))
     \<and> win_pos wk' = (win_pos wk)
          (h := Some (placement stretch (TabControl_GetClientRect wk hTab1) (win_client wk h)))
     \<and> win_parent wk' = (win_parent wk)(h := win_parent wk hTab1)
     \<and> win_visible wk' = win_visible wk \<and> win_style wk' = win_style wk
     \<and> win_rect wk' = win_rect wk \<and> client_origin wk' = client_origin wk
     \<and> tab_item_rect wk' = tab_item_rect wk \<and> win_client wk' = win_client wk"
proof -
  define wa where "wa = TabCtrl_InsertItem hTab1 (int k) text wk"
  define wb where "wb = wa\<lparr>dlg_supply := rest, win_parent := (win_parent wa)(h := GetParent wa hTab1),
                       calls := calls wa @ [Call_CreateDialog tmpl (GetParent wa hTab1) h]\<rparr>"
  define tck' where "tck' = tck\<lparr>hTabPages := (hTabPages tck)[k := h]\<rparr>"
  define wc where "wc = store_m_lptc tck' wb"
  define wd where "wd = SetWindowLong_USERDATA h hTab1 wc"
  define we where "we = wd\<lparr>m_lptc := win_userdata wd hTab1,
        win_pos := (win_pos wd)(h := Some (placement stretch (TabControl_GetClientRect wd hTab1) (win_client wd h))),
        z_order := h # removeAll h (z_order wd)\<rparr>"
  have d: "deref_m_lptc wk = Inr tck"
    using assms(4,6) by (simp add: deref_m_lptc_def)
  have cd: "CreateDialog tmpl (GetParent wa hTab1) wa = (h, wb)"
    using assms(2,12) by (simp add: CreateDialog_def wb_def wa_def TabCtrl_InsertItem_def)
  have wd_ud: "win_userdata wd = (win_userdata wk)(h := hTab1)"
    using assms(2)
    by (simp add: wd_def SetWindowLong_USERDATA_def wc_def store_m_lptc_def wb_def wa_def
        TabCtrl_InsertItem_def)
  have wd_m: "m_lptc wd = lptc"
    using assms(4)
    by (simp add: wd_def SetWindowLong_USERDATA_def wc_def store_m_lptc_def wb_def wa_def
        TabCtrl_InsertItem_def)
  have wd_heap: "heap wd = (heap wk)(lptc \<mapsto> tck')"
    using assms(4)
    by (simp add: wd_def SetWindowLong_USERDATA_def wc_def store_m_lptc_def wb_def wa_def
        TabCtrl_InsertItem_def)
  have ud_tab: "win_userdata wd hTab1 = lptc"
    using assms(3,5) by (simp add: wd_ud)
  have pl: "(if stretch then StretchTabPage hTab1 (int k) wd else CenterTabPage hTab1 (int k) wd)
      = Inr (True, we)"
    unfolding we_def
  proof (rule place_page)
    show "hTab1 \<noteq> NULL" by fact
    show "heap wd (win_userdata wd hTab1) = Some tck'" by (simp add: ud_tab wd_heap)
    show "page_at tck' (int k) = Inr h"
      using assms(11) by (simp add: page_at_def array_at_def tck'_def)
    show "h \<noteq> NULL" by fact
    show "blStretchTabs tck' = stretch" using assms(8) by (simp add: tck'_def)
  qed
  have body: "New_TabControl_body hTab1 dlgNames (int k) wk = Inr we"
    using d assms(7,8,9,10,11) cd pl
    by (cases stretch)
      (simp_all add: New_TabControl_body_def Let_def wa_def[symmetric] tck'_def[symmetric]
        wc_def[symmetric] wd_def[symmetric])
  have r: "TabControl_GetClientRect wd hTab1 = TabControl_GetClientRect wk hTab1"
    using assms(2,3)
    by (intro GetClientRect_frame_at)
      (simp_all add: wd_def SetWindowLong_USERDATA_def wc_def store_m_lptc_def wb_def wa_def
        TabCtrl_InsertItem_def)
  have fields:
    "dlg_supply wd = rest"
    "tab_items wd = (tab_items wk)
          (hTab1 := take k (tab_items wk hTab1) @ [text] @ drop k (tab_items wk hTab1))"
    "win_pos wd = win_pos wk"
    "win_parent wd = (win_parent wk)(h := win_parent wk hTab1)"
    "win_visible wd = win_visible wk" "win_style wd = win_style wk"
    "win_rect wd = win_rect wk" "client_origin wd = client_origin wk"
    "tab_item_rect wd = tab_item_rect wk" "win_client wd = win_client wk"
    using assms(2)
    by (simp_all add: wd_def SetWindowLong_USERDATA_def wc_def store_m_lptc_def wb_def wa_def
        TabCtrl_InsertItem_def GetParent_def)
  show ?thesis
    apply (rule exI[of _ we])
    using body wd_ud wd_m wd_heap ud_tab r fields
    by (simp add: we_def tck'_def)
qed

lemma fill_slot:
  assumes "k < n" "length hs = n"
  shows "(take k hs @ replicate (n - k) g)[k := hs ! k] = take (Suc k) hs @ replicate (n - Suc k) g"
proof -
  have "replicate (n - k) g = g # replicate (n - Suc k) g"
    using assms(1) by (metis Suc_diff_Suc replicate_Suc)
  then show ?thesis
    using assms by (simp add: list_update_append take_Suc_conv_app_nth)
qed

lemma count_templates:
  "length (takeWhile (\<lambda>p. p \<noteq> None) (map Some tmpls @ None # junk)) = length tmpls"
  by (induction tmpls) simp_all

text \<open>
  Claim C8, as amended. The template list holds \<open>n \<ge> 1\<close> names before its first null
  entry, there are at least \<open>n\<close> labels, and dialog creation succeeds, returning \<open>n\<close>
  distinct new windows \<open>hs\<close>. Then \<^verbatim>\<open>New_TabControl\<close> returns with a page array of length
  \<open>n\<close> holding exactly these windows (no further dialog is created), the first \<open>n\<close>
  labels inserted in order at the front of the strip's items, each page a child of the
  strip's parent, tagged with the strip's handle and placed by the configured policy, and
  page 0 recorded as the visible page. The constructor shows page 0 and changes the
  visibility of no other window: afterwards a page is visible exactly when it is page 0 or
  its window was visible as created. So page 0 is the only visible page when the dialogs are
  created hidden, and a dialog created visible stays visible.
\<close>

theorem constructor_builds_pages:
  assumes heap0: "heap w lptc = Some tc0"
    and tab: "hTab1 \<noteq> NULL"
    and names: "dlgNames = map Some tmpls @ None # junk"
    and n: "n = length tmpls" "0 < n" "n \<le> length tabNames1"
    and sup: "dlg_supply w = hs @ later" "length hs = n" "NULL \<notin> set hs" "distinct hs"
      "hTab1 \<notin> set hs"
  shows "\<exists>w' tc'. New_TabControl lptc hTab1 tabNames1 dlgNames PP OnSize fStretch w = Inr w'
      \<and> heap w' lptc = Some tc' \<and> hTabPages tc' = hs \<and> length (hTabPages tc') = n
      \<and> tabPageCount tc' = int n \<and> hVisiblePage tc' = hs ! 0
      \<and> hTab tc' = hTab1 \<and> blStretchTabs tc' = fStretch
      \<and> dlg_supply w' = later
      \<and> tab_items w' hTab1 = take n tabNames1 @ tab_items w hTab1
      \<and> (\<forall>i<n. win_pos w' (hs ! i)
                   = Some (placement fStretch (TabControl_GetClientRect w hTab1) (win_client w (hs ! i)))
               \<and> win_parent w' (hs ! i) = GetParent w hTab1
               \<and> win_userdata w' (hs ! i) = hTab1
               \<and> (win_visible w' (hs ! i) \<longleftrightarrow> i = 0 \<or> win_visible w (hs ! i)))
      \<and> win_visible w' = (win_visible w)(hs ! 0 := True)"
proof -
  define g where "g = malloc_garbage w"
  define w1 where "w1 = SetWindowLong_USERDATA hTab1 lptc (w\<lparr>m_lptc := lptc\<rparr>)"
  define tcI where "tcI = tc0\<lparr>hTab := hTab1, tabNames := tabNames1, blStretchTabs := fStretch,
                           ParentProc := PP,
                           TabPage_OnSize := (case OnSize of Some f \<Rightarrow> f | None \<Rightarrow> Fn_TabPage_OnSize),
                           Notify_ptr := Fn_Notify,
                           StretchTabPage_ptr := Fn_StretchTabPage,
                           CenterTabPage_ptr := Fn_CenterTabPage,
                           tabPageCount := int n,
                           hTabPages := replicate n g\<rparr>"
  define w2 where "w2 = store_m_lptc tcI w1"
  define target where "target = TabControl_GetClientRect w hTab1"
  define P where "P = (\<lambda>(k::nat) (wk::world).
      m_lptc wk = lptc \<and> win_userdata wk hTab1 = lptc
    \<and> heap wk lptc = Some (tcI\<lparr>hTabPages := take k hs @ replicate (n - k) g\<rparr>)
    \<and> dlg_supply wk = drop k hs @ later
    \<and> tab_items wk hTab1 = take k tabNames1 @ tab_items w hTab1
    \<and> (\<forall>i<k. win_pos wk (hs ! i) = Some (placement fStretch target (win_client w (hs ! i)))
             \<and> win_parent wk (hs ! i) = win_parent w hTab1
             \<and> win_userdata wk (hs ! i) = hTab1)
    \<and> win_visible wk = win_visible w \<and> win_style wk = win_style w \<and> win_rect wk = win_rect w
    \<and> win_parent wk hTab1 = win_parent w hTab1 \<and> client_origin wk = client_origin w
    \<and> tab_item_rect wk = tab_item_rect w \<and> win_client wk = win_client w)"
  have d1: "deref_m_lptc w1 = Inr tc0"
    using heap0 tab by (simp add: w1_def deref_m_lptc_def SetWindowLong_USERDATA_def)
  have cnt: "length (takeWhile (\<lambda>p. p \<noteq> None) dlgNames) = n"
    unfolding names n(1) by (rule count_templates)
  have trm: "None \<in> set dlgNames" unfolding names by simp
  have P0: "P 0 w2"
    using tab sup(1)
    by (simp add: P_def w2_def w1_def store_m_lptc_def SetWindowLong_USERDATA_def tcI_def)
  have step: "\<exists>wk'. New_TabControl_body hTab1 dlgNames (int k) wk = Inr wk' \<and> P (Suc k) wk'"
    if Pk: "P k wk" and k: "k < n" for k wk
  proof -
    define tck where "tck = tcI\<lparr>hTabPages := take k hs @ replicate (n - k) g\<rparr>"
    have hk: "hs ! k \<in> set hs" using k sup(2) by simp
    have h0: "hs ! k \<noteq> NULL" using hk sup(3) by metis
    have ht: "hs ! k \<noteq> hTab1" using hk sup(5) by metis
    have supk: "dlg_supply wk = hs ! k # (drop (Suc k) hs @ later)"
      using Pk k sup(2) by (simp add: P_def Cons_nth_drop_Suc)
    have tn: "array_at (tabNames tck) (int k) = Inr (tabNames1 ! k)"
      using k n(3) by (simp add: array_at_def tck_def tcI_def)
    have dn: "array_at dlgNames (int k) = Inr (Some (tmpls ! k))"
      using k n(1) by (simp add: array_at_def names nth_append)
    have len: "k < length (hTabPages tck)"
      using k sup(2) by (simp add: tck_def)
    from body_step[OF tab h0 ht _ _ _ _ _ tn dn len supk, of lptc fStretch] Pk
    obtain wk' where
      b: "New_TabControl_body hTab1 dlgNames (int k) wk = Inr wk'"
      and f: "m_lptc wk' = lptc" "win_userdata wk' = (win_userdata wk)(hs ! k := hTab1)"
        "heap wk' = (heap wk)(lptc \<mapsto> tck\<lparr>hTabPages := (hTabPages tck)[k := hs ! k]\<rparr>)"
        "dlg_supply wk' = drop (Suc k) hs @ later"
        "tab_items wk' = (tab_items wk)
          (hTab1 := take k (tab_items wk hTab1) @ [tabNames1 ! k] @ drop k (tab_items wk hTab1))"
        "win_pos wk' = (win_pos wk)
          (hs ! k := Some (placement fStretch (TabControl_GetClientRect wk hTab1) (win_client wk (hs ! k))))"
        "win_parent wk' = (win_parent wk)(hs ! k := win_parent wk hTab1)"
        "win_visible wk' = win_visible wk" "win_style wk' = win_style wk"
        "win_rect wk' = win_rect wk" "client_origin wk' = client_origin wk"
        "tab_item_rect wk' = tab_item_rect wk" "win_client wk' = win_client wk"
      unfolding P_def tck_def tcI_def by fastforce
    have tg: "TabControl_GetClientRect wk hTab1 = target"
      unfolding target_def using Pk by (intro GetClientRect_frame_at) (simp_all add: P_def)
    have slot: "(hTabPages tck)[k := hs ! k] = take (Suc k) hs @ replicate (n - Suc k) g"
      unfolding tck_def using fill_slot[OF k sup(2)] by simp
    have items: "take k (tab_items wk hTab1) @ [tabNames1 ! k] @ drop k (tab_items wk hTab1)
        = take (Suc k) tabNames1 @ tab_items w hTab1"
      using Pk k n(3) by (simp add: P_def take_Suc_conv_app_nth)
    have others: "hs ! i \<noteq> hs ! k" if "i < k" for i
      using that k sup(2,4) by (simp add: nth_eq_iff_index_eq)
    have "P (Suc k) wk'"
      unfolding P_def
      using Pk f tg slot items others ht
      by (simp add: P_def less_Suc_eq tck_def)
    with b show ?thesis by blast
  qed
  have loop: "\<exists>wk. New_TabControl_for hTab1 dlgNames [0..<k] w2 = Inr wk \<and> P k wk"
    if "k \<le> n" for k
    using that
  proof (induction k)
    case 0
    then show ?case using P0 by simp
  next
    case (Suc k)
    then obtain wk where wk: "New_TabControl_for hTab1 dlgNames [0..<k] w2 = Inr wk" "P k wk"
      by auto
    from step[OF wk(2)] Suc.prems obtain wk' where
      "New_TabControl_body hTab1 dlgNames (int k) wk = Inr wk'" "P (Suc k) wk'" by auto
    then show ?case using wk(1) by (simp add: New_TabControl_for_append)
  qed
  from loop[of n] obtain w3 where
    w3: "New_TabControl_for hTab1 dlgNames [0..<n] w2 = Inr w3" and P3: "P n w3" by auto
  define tc3 where "tc3 = tcI\<lparr>hTabPages := hs\<rparr>"
  have d3: "deref_m_lptc w3 = Inr tc3"
    using P3 sup(2) by (simp add: P_def deref_m_lptc_def tc3_def)
  have p0: "page_at tc3 0 = Inr (hs ! 0)"
    using n(2) sup(2) by (simp add: page_at_def array_at_def tc3_def)
  have h0: "hs ! 0 \<noteq> NULL"
    using n(2) sup(2,3) by (metis nth_mem)
  define w' where "w' = store_m_lptc (tc3\<lparr>hVisiblePage := hs ! 0\<rparr>) (ShowWindow (hs ! 0) SW_SHOW w3)"
  have mg: "malloc_garbage w1 = g"
    by (simp add: w1_def g_def SetWindowLong_USERDATA_def)
  have res: "New_TabControl lptc hTab1 tabNames1 dlgNames PP OnSize fStretch w = Inr w'"
    unfolding New_TabControl_def Let_def w1_def[symmetric] cnt mg
    using d1 trm w3[unfolded w2_def tcI_def] d3 p0 by (simp add: w'_def)
  have m3: "m_lptc w3 = lptc" using P3 by (simp add: P_def)
  have heap': "heap w' lptc = Some (tc3\<lparr>hVisiblePage := hs ! 0\<rparr>)"
    using h0 m3 by (simp add: w'_def store_m_lptc_def ShowWindow_def)
  have vis: "win_visible w' = (win_visible w)(hs ! 0 := True)"
    using h0 P3 by (simp add: w'_def store_m_lptc_def ShowWindow_def P_def winconst)
  have rest: "dlg_supply w' = later" "tab_items w' hTab1 = take n tabNames1 @ tab_items w hTab1"
    "win_pos w' = win_pos w3" "win_parent w' = win_parent w3" "win_userdata w' = win_userdata w3"
    using h0 P3 sup(2) by (simp_all add: w'_def store_m_lptc_def ShowWindow_def P_def)
  have pages: "win_pos w' (hs ! i)
                   = Some (placement fStretch (TabControl_GetClientRect w hTab1) (win_client w (hs ! i)))
               \<and> win_parent w' (hs ! i) = GetParent w hTab1
               \<and> win_userdata w' (hs ! i) = hTab1
               \<and> (win_visible w' (hs ! i) \<longleftrightarrow> i = 0 \<or> win_visible w (hs ! i))"
    if "i < n" for i
  proof -
    have "hs ! i = hs ! 0 \<longleftrightarrow> i = 0"
      using that n(2) sup(2,4) by (simp add: nth_eq_iff_index_eq)
    then show ?thesis
      using P3 that by (simp add: rest vis P_def target_def GetParent_def)
  qed
  show ?thesis
    apply (rule exI[of _ w'], rule exI[of _ "tc3\<lparr>hVisiblePage := hs ! 0\<rparr>"])
    using res heap' vis rest(1,2) pages sup(2)
    by (simp add: tc3_def tcI_def)
qed

lemmas constructor_eval = New_TabControl_def New_TabControl_body_def Let_def
  SetWindowLong_USERDATA_def deref_m_lptc_def store_m_lptc_def page_at_def array_at_def
  ShowWindow_def unbuilt_world_def example_world_def example_tabctrl_def example_labels_def
  example_templates_def winconst

text \<open>
  Counterexample to C8 as stated (for every null-terminated template list): with no
  template before the null entry the page array has length 0, the loop body never runs, and
  the final \<^verbatim>\<open>ShowWindow(m_lptc->hTabPages[0], SW_SHOW)\<close> reads outside the array.
\<close>

theorem constructor_without_templates_counterexample:
  "New_TabControl 1 100 example_labels [None] (Fn_External 1) None False unbuilt_world
     = Inl OutOfBounds"
  by (simp add: constructor_eval)

text \<open>
  Witness for C8: three labels and three templates, centred: the pages 11, 12 and 13 are
  created, the strip holds the three labels in order, page 11 is placed at (108, 127) with
  its natural size and is the only page visible. When dialog 12 is visible as created, the
  pages 11 and 12 are visible afterwards.
\<close>

theorem constructor_builds_pages_witness:
  "heap unbuilt_world 1 = Some example_tabctrl \<and> (100::nat) \<noteq> NULL
   \<and> 3 = length example_templates \<and> (0::nat) < 3 \<and> 3 \<le> length example_labels
   \<and> dlg_supply unbuilt_world = [11, 12, 13] @ [] \<and> length [11, 12, 13::nat] = 3
   \<and> NULL \<notin> set [11, 12, 13::nat] \<and> distinct [11, 12, 13::nat] \<and> 100 \<notin> set [11, 12, 13::nat]
   \<and> \<not> win_visible unbuilt_world 11 \<and> \<not> win_visible unbuilt_world 12
   \<and> \<not> win_visible unbuilt_world 13
   \<and> (\<exists>w' tc'. New_TabControl 1 100 example_labels (map Some example_templates @ None # [])
                   (Fn_External 1) None False unbuilt_world = Inr w'
         \<and> heap w' 1 = Some tc' \<and> hTabPages tc' = [11, 12, 13] \<and> hVisiblePage tc' = 11
         \<and> dlg_supply w' = []
         \<and> tab_items w' 100 = [Some ''One'', Some ''Two'', Some ''Three'']
         \<and> win_pos w' 11 = Some (108, 127, 200, 101)
         \<and> win_visible w' 11 \<and> \<not> win_visible w' 12 \<and> \<not> win_visible w' 13)
   \<and> win_visible visible_dialog_world 12 \<and> \<not> win_visible visible_dialog_world 13
   \<and> (\<exists>w' tc'. New_TabControl 1 100 example_labels (map Some example_templates @ None # [])
                   (Fn_External 1) None False visible_dialog_world = Inr w'
         \<and> heap w' 1 = Some tc' \<and> hTabPages tc' = [11, 12, 13] \<and> hVisiblePage tc' = 11
         \<and> win_visible w' 11 \<and> win_visible w' 12 \<and> \<not> win_visible w' 13)"
proof -
  have a: "heap unbuilt_world 1 = Some example_tabctrl"
    "heap visible_dialog_world 1 = Some example_tabctrl"
    by (simp_all add: visible_dialog_world_def unbuilt_world_def example_world_def)
  have b: "(100::nat) \<noteq> NULL" by simp
  have n: "3 = length example_templates" "(0::nat) < 3" "3 \<le> length example_labels"
    by (simp_all add: example_templates_def example_labels_def)
  have s: "dlg_supply unbuilt_world = [11, 12, 13] @ []" "length [11, 12, 13::nat] = 3"
    "NULL \<notin> set [11, 12, 13::nat]" "distinct [11, 12, 13::nat]" "100 \<notin> set [11, 12, 13::nat]"
    by (simp_all add: unbuilt_world_def)
  have s': "dlg_supply visible_dialog_world = [11, 12, 13] @ []"
    by (simp add: visible_dialog_world_def unbuilt_world_def)
  have h: "\<not> win_visible unbuilt_world 11" "\<not> win_visible unbuilt_world 12"
    "\<not> win_visible unbuilt_world 13"
    "win_visible visible_dialog_world 12" "\<not> win_visible visible_dialog_world 13"
    by (simp_all add: visible_dialog_world_def unbuilt_world_def)
  have r: "TabControl_GetClientRect unbuilt_world 100
     = \<lparr>rc_left = 14, rc_top = 46, rc_right = 388, rc_bottom = 264\<rparr>"
    by (simp add: TabControl_GetClientRect_def Let_def GetWindowLong_STYLE_def GetWindowRect_def
        ScreenToClient_def GetParent_def TabCtrl_GetItemRect_def unbuilt_world_def example_world_def
        winconst)
  have p: "placement False \<lparr>rc_left = 14, rc_top = 46, rc_right = 388, rc_bottom = 264\<rparr>
             (win_client unbuilt_world 11) = (108, 127, 200, 101)"
    by (simp add: placement_def unbuilt_world_def example_world_def)
  have i: "tab_items unbuilt_world 100 = []" by (simp add: unbuilt_world_def)
  from constructor_builds_pages[OF a(1) b refl n s,
      where junk = "[]" and PP = "Fn_External 1" and OnSize = None and fStretch = False]
  obtain w' tc' where
    o: "New_TabControl 1 100 example_labels (map Some example_templates @ None # [])
                   (Fn_External 1) None False unbuilt_world = Inr w'"
    "heap w' 1 = Some tc'" "hTabPages tc' = [11, 12, 13]" "hVisiblePage tc' = [11, 12, 13::nat] ! 0"
    "dlg_supply w' = []"
    "tab_items w' 100 = take 3 example_labels @ tab_items unbuilt_world 100"
    and q: "\<forall>i<3. win_pos w' ([11, 12, 13] ! i)
                   = Some (placement False (TabControl_GetClientRect unbuilt_world 100)
                            (win_client unbuilt_world ([11, 12, 13] ! i)))
               \<and> (win_visible w' ([11, 12, 13] ! i)
                    \<longleftrightarrow> i = 0 \<or> win_visible unbuilt_world ([11, 12, 13] ! i))"
    by blast
  from q[rule_format, of 0] q[rule_format, of 1] q[rule_format, of 2]
  have v: "win_pos w' 11 = Some (108, 127, 200, 101)"
    "win_visible w' 11" "\<not> win_visible w' 12" "\<not> win_visible w' 13"
    by (simp_all add: r p h)
  from constructor_builds_pages[OF a(2) b refl n s' s(2-5),
      where junk = "[]" and PP = "Fn_External 1" and OnSize = None and fStretch = False]
  obtain w'' tc'' where
    o': "New_TabControl 1 100 example_labels (map Some example_templates @ None # [])
                   (Fn_External 1) None False visible_dialog_world = Inr w''"
    "heap w'' 1 = Some tc''" "hTabPages tc'' = [11, 12, 13]"
    "hVisiblePage tc'' = [11, 12, 13::nat] ! 0"
    and q': "\<forall>i<3. win_visible w'' ([11, 12, 13] ! i)
                    \<longleftrightarrow> i = 0 \<or> win_visible visible_dialog_world ([11, 12, 13] ! i)"
    by blast
  from q'[rule_format, of 0] q'[rule_format, of 1] q'[rule_format, of 2]
  have v': "win_visible w'' 11" "win_visible w'' 12" "\<not> win_visible w'' 13"
    by (simp_all add: h)
  show ?thesis
    using a n s h o v o' v' by (simp add: i example_labels_def)
qed

end
